theory Spec2Isabelle
  imports Complex_Main "HOL-Library.AList"
begin

section \<open>JavaScript values\<close>

text \<open>
  The service handles upstream payloads typed \<^verbatim>\<open>any\<close>: whatever the HTTP client
  parsed from the response body. They are modelled as a datatype of JavaScript values.
  A number stands for the double it was parsed to, given by its rational value (the
  two zeros of a double are both falsy and are one value here; NaN cannot come out of
  a JSON text). A string is the list of its UTF-16 code units, which is what
  \<^verbatim>\<open>slice\<close> and indexing count. An object is the list of its own properties in
  insertion order, under property names written as Isabelle strings. The one function
  value that can turn up is a built-in method read as a property (\<^verbatim>\<open>"x".small\<close>); it
  is named by its property name.
\<close>

type_synonym code_unit = nat

datatype jsval =
    JUndefined
  | JNull
  | JBool bool
  | JNum rat
  | JStr "code_unit list"
  | JArr "jsval list"
  | JObj "(string \<times> jsval) list"
  | JFun string

type_synonym object = "(string \<times> jsval) list"

datatype error = TypeError | Rejected string

text \<open>
  A string literal of the source, all of them ASCII: one code unit for each character.
\<close>

definition units :: "string \<Rightarrow> code_unit list" where
  "units s = map of_char s"

abbreviation str :: "string \<Rightarrow> jsval" where
  "str s \<equiv> JStr (units s)"

text \<open>Truthiness, as \<^verbatim>\<open>||\<close> and \<^verbatim>\<open>!\<close> test it.\<close>

fun truthy :: "jsval \<Rightarrow> bool" where
  "truthy JUndefined = False"
| "truthy JNull = False"
| "truthy (JBool b) = b"
| "truthy (JNum n) = (n \<noteq> 0)"
| "truthy (JStr s) = (s \<noteq> [])"
| "truthy (JArr xs) = True"
| "truthy (JObj kvs) = True"
| "truthy (JFun f) = True"

text \<open>\<^verbatim>\<open>a || b\<close>\<close>

definition js_or :: "jsval \<Rightarrow> jsval \<Rightarrow> jsval" where
  "js_or a b = (if truthy a then a else b)"

fun nullish :: "jsval \<Rightarrow> bool" where
  "nullish JUndefined = True"
| "nullish JNull = True"
| "nullish v = False"

text \<open>
  Reading a property of a value that is neither null nor undefined. Of the property
  names the service reads (the field names of the two payloads, \<^verbatim>\<open>data\<close>,
  \<^verbatim>\<open>choices\<close>, \<^verbatim>\<open>message\<close>, \<^verbatim>\<open>content\<close>) only \<^verbatim>\<open>small\<close> is found on a
  prototype, that of strings; every other one is an own property or undefined.
\<close>

fun get_member :: "jsval \<Rightarrow> string \<Rightarrow> jsval" where
  "get_member (JObj kvs) k = (case map_of kvs k of None \<Rightarrow> JUndefined | Some v \<Rightarrow> v)"
| "get_member (JStr s) k = (if k = ''small'' then JFun ''small'' else JUndefined)"
| "get_member v k = JUndefined"

text \<open>\<^verbatim>\<open>v.k\<close>: a TypeError on null and undefined.\<close>

definition dot :: "jsval \<Rightarrow> string \<Rightarrow> error + jsval" where
  "dot v k = (if nullish v then Inl TypeError else Inr (get_member v k))"

text \<open>\<^verbatim>\<open>v?.k\<close>: undefined on null and undefined.\<close>

definition opt_dot :: "jsval \<Rightarrow> string \<Rightarrow> jsval" where
  "opt_dot v k = (if nullish v then JUndefined else get_member v k)"

text \<open>
  \<^verbatim>\<open>v?.toUpperCase()\<close>: undefined when \<open>v\<close> is null or undefined; the method exists
  on strings only, and calling what is not a function is a TypeError. The method itself,
  \<^verbatim>\<open>String.prototype.toUpperCase\<close> with its Unicode case tables, belongs to the
  runtime and not to this repository: it is the parameter \<open>to_upper\<close>.
\<close>

fun opt_toUpperCase :: "(code_unit list \<Rightarrow> code_unit list) \<Rightarrow> jsval \<Rightarrow> error + jsval" where
  "opt_toUpperCase to_upper JUndefined = Inr JUndefined"
| "opt_toUpperCase to_upper JNull = Inr JUndefined"
| "opt_toUpperCase to_upper (JStr s) = Inr (JStr (to_upper s))"
| "opt_toUpperCase to_upper v = Inl TypeError"

text \<open>
  \<^verbatim>\<open>slice(start)\<close> of arrays and strings (by element, and by code unit): a
  negative start counts from the end, and the start is clamped to the sequence.
\<close>

definition slice :: "int \<Rightarrow> 'a list \<Rightarrow> 'a list" where
  "slice start xs =
     (let len = int (length xs);
          k = (if start < 0 then max (len + start) 0 else min start len)
      in drop (nat k) xs)"

text \<open>\<^verbatim>\<open>v?.slice(-24)\<close>\<close>

fun opt_slice24 :: "jsval \<Rightarrow> error + jsval" where
  "opt_slice24 JUndefined = Inr JUndefined"
| "opt_slice24 JNull = Inr JUndefined"
| "opt_slice24 (JArr xs) = Inr (JArr (slice (- 24) xs))"
| "opt_slice24 (JStr s) = Inr (JStr (slice (- 24) s))"
| "opt_slice24 v = Inl TypeError"

section \<open>The two normalizers\<close>

text \<open>
  \<^verbatim>\<open>formatAiAgentToken(token: any)\<close>: the list view. The first argument is the
  runtime's \<^verbatim>\<open>toUpperCase\<close>.
\<close>

definition formatAiAgentToken ::
  "(code_unit list \<Rightarrow> code_unit list) \<Rightarrow> jsval \<Rightarrow> error + object" where
  "formatAiAgentToken to_upper token =
     (if nullish token then Inl TypeError
      else case opt_toUpperCase to_upper (get_member token ''symbol'') of
        Inl e \<Rightarrow> Inl e
      | Inr upper \<Rightarrow> Inr
         [(''id'', get_member token ''id''),
          (''name'', get_member token ''name''),
          (''symbol'', js_or upper (str ''N/A'')),
          (''image'', js_or (get_member token ''image'') (str '''')),
          (''current_price'', js_or (get_member token ''current_price'') (JNum 0)),
          (''market_cap'', js_or (get_member token ''market_cap'') (JNum 0)),
          (''market_cap_rank'', js_or (get_member token ''market_cap_rank'') JNull),
          (''total_volume'', js_or (get_member token ''total_volume'') (JNum 0)),
          (''high_24h'', js_or (get_member token ''high_24h'') (JNum 0)),
          (''low_24h'', js_or (get_member token ''low_24h'') (JNum 0)),
          (''price_change_24h'', js_or (get_member token ''price_change_24h'') (JNum 0)),
          (''price_change_percentage_24h'',
             js_or (get_member token ''price_change_percentage_24h'') (JNum 0)),
          (''circulating_supply'', js_or (get_member token ''circulating_supply'') (JNum 0)),
          (''total_supply'', js_or (get_member token ''total_supply'') (JNum 0)),
          (''max_supply'', js_or (get_member token ''max_supply'') JNull),
          (''ath'', js_or (get_member token ''ath'') (JNum 0)),
          (''ath_change_percentage'', js_or (get_member token ''ath_change_percentage'') (JNum 0)),
          (''atl'', js_or (get_member token ''atl'') (JNum 0)),
          (''atl_change_percentage'', js_or (get_member token ''atl_change_percentage'') (JNum 0)),
          (''last_updated'', js_or (get_member token ''last_updated'') (str ''N/A''))])"

text \<open>\<^verbatim>\<open>formatTokenDetails(token: any)\<close>: the detail view.\<close>

definition formatTokenDetails ::
  "(code_unit list \<Rightarrow> code_unit list) \<Rightarrow> jsval \<Rightarrow> error + object" where
  "formatTokenDetails to_upper token =
     (if nullish token then Inl TypeError
      else case opt_toUpperCase to_upper (get_member token ''symbol'') of
        Inl e \<Rightarrow> Inl e
      | Inr upper \<Rightarrow>
         (let image = get_member token ''image'';
              market_data = get_member token ''market_data''
          in case opt_slice24 (opt_dot (opt_dot market_data ''sparkline_7d'') ''price'') of
            Inl e \<Rightarrow> Inl e
          | Inr chart \<Rightarrow> Inr
             [(''id'', get_member token ''id''),
              (''name'', get_member token ''name''),
              (''symbol'', js_or upper (str ''N/A'')),
              (''image'', JObj
                 [(''thumb'', js_or (opt_dot image ''thumb'') (str '''')),
                  (''small'', js_or (opt_dot image ''small'') (str '''')),
                  (''large'', js_or (opt_dot image ''large'') (str ''''))]),
              (''market_cap_rank'', js_or (get_member token ''market_cap_rank'') JNull),
              (''current_price'',
                 js_or (opt_dot (opt_dot market_data ''current_price'') ''usd'') (JNum 0)),
              (''market_cap'',
                 js_or (opt_dot (opt_dot market_data ''market_cap'') ''usd'') (JNum 0)),
              (''total_volume'',
                 js_or (opt_dot (opt_dot market_data ''total_volume'') ''usd'') (JNum 0)),
              (''price_change_24h'', js_or (opt_dot market_data ''price_change_24h'') (JNum 0)),
              (''price_change_percentage_24h'',
                 js_or (opt_dot market_data ''price_change_percentage_24h'') (JNum 0)),
              (''circulating_supply'', js_or (opt_dot market_data ''circulating_supply'') (JNum 0)),
              (''total_supply'', js_or (opt_dot market_data ''total_supply'') (JNum 0)),
              (''max_supply'', js_or (opt_dot market_data ''max_supply'') JNull),
              (''ath'', js_or (opt_dot (opt_dot market_data ''ath'') ''usd'') (JNum 0)),
              (''ath_change_percentage'',
                 js_or (opt_dot market_data ''ath_change_percentage'') (JNum 0)),
              (''ath_date'', js_or (opt_dot market_data ''ath_date'') (str ''N/A'')),
              (''atl'', js_or (opt_dot (opt_dot market_data ''atl'') ''usd'') (JNum 0)),
              (''atl_change_percentage'',
                 js_or (opt_dot market_data ''atl_change_percentage'') (JNum 0)),
              (''atl_date'', js_or (opt_dot market_data ''atl_date'') (str ''N/A'')),
              (''last_updated'', js_or (get_member token ''last_updated'') (str ''N/A'')),
              (''chart_data'', js_or chart (JArr []))]))"

section \<open>Effects: outbound calls, the error stream, exceptions\<close>

text \<open>
  A template literal, kept symbolic: its literal chunks and the values put in its
  holes (\<^verbatim>\<open>${v}\<close>, or \<^verbatim>\<open>${JSON.stringify(v)}\<close>). The decimal text of a number is
  not modelled; whether converting a hole to a string throws is.
\<close>

datatype segment = Lit string | Hole jsval | Json jsval

type_synonym template = "segment list"

text \<open>
  Converting a parsed-JSON value to a string throws a TypeError exactly when it reaches
  an object that has an own property \<^verbatim>\<open>toString\<close> (it hides the callable one
  of the prototype, and the inherited \<^verbatim>\<open>valueOf\<close> returns the object itself). An array is
  joined: null and undefined elements become the empty string, the others are converted.
\<close>

fun toString_throws :: "jsval \<Rightarrow> bool" where
  "toString_throws (JObj kvs) = (''toString'' \<in> fst ` set kvs)"
| "toString_throws (JArr xs) = list_ex (\<lambda>x. \<not> nullish x \<and> toString_throws x) xs"
| "toString_throws v = False"

fun segment_throws :: "segment \<Rightarrow> bool" where
  "segment_throws (Hole v) = toString_throws v"
| "segment_throws s = False"

definition template_literal :: "template \<Rightarrow> error + template" where
  "template_literal t = (if list_ex segment_throws t then Inl TypeError else Inr t)"

text \<open>The argument of \<^verbatim>\<open>openai.chat.completions.create\<close>.\<close>

record chat_request =
  model :: string
  messages :: "(string \<times> template) list"
  temperature :: rat
  max_tokens :: nat

text \<open>
  What a run does to the outside, in order: the HTTP requests it sends, the completions
  it asks for, the lines it writes to the error stream.
\<close>

datatype event =
    HttpGet string object
  | ChatCreate chat_request
  | ConsoleError template error

text \<open>
  The service object, the two collaborators it calls and the runtime's
  \<^verbatim>\<open>toUpperCase\<close>. Each outbound call either resolves to a value or rejects; what it
  answers is a parameter.
\<close>

record TokenService =
  coingeckoApi :: string
  toUpperCase :: "code_unit list \<Rightarrow> code_unit list"
  axios_get :: "string \<Rightarrow> object \<Rightarrow> error + jsval"
  openai_create :: "chat_request \<Rightarrow> error + jsval"

text \<open>
  An async function's outcome: the value it resolves to or the error it rejects with,
  and the events of the run.
\<close>

type_synonym 'a io = "(error + 'a) \<times> event list"

definition pure_io :: "'a \<Rightarrow> 'a io" where
  "pure_io v = (Inr v, [])"

definition lift_io :: "error + 'a \<Rightarrow> 'a io" where
  "lift_io r = (r, [])"

definition bind_io :: "'a io \<Rightarrow> ('a \<Rightarrow> 'b io) \<Rightarrow> 'b io" where
  "bind_io m f =
     (case m of
        (Inl e, tr) \<Rightarrow> (Inl e, tr)
      | (Inr v, tr) \<Rightarrow> (case f v of (r, tr') \<Rightarrow> (r, tr @ tr')))"

text \<open>\<^verbatim>\<open>try { m } catch (error) { h error }\<close>\<close>

definition try_catch :: "'a io \<Rightarrow> (error \<Rightarrow> 'a io) \<Rightarrow> 'a io" where
  "try_catch m h =
     (case m of
        (Inl e, tr) \<Rightarrow> (case h e of (r, tr') \<Rightarrow> (r, tr @ tr'))
      | (Inr v, tr) \<Rightarrow> (Inr v, tr))"

definition http_get :: "TokenService \<Rightarrow> string \<Rightarrow> object \<Rightarrow> jsval io" where
  "http_get env url params = (axios_get env url params, [HttpGet url params])"

definition chat_create :: "TokenService \<Rightarrow> chat_request \<Rightarrow> jsval io" where
  "chat_create env req = (openai_create env req, [ChatCreate req])"

definition console_error :: "template \<Rightarrow> error \<Rightarrow> unit io" where
  "console_error msg e = (Inr (), [ConsoleError msg e])"

text \<open>The completions a run asked for.\<close>

fun chat_calls :: "event list \<Rightarrow> chat_request list" where
  "chat_calls [] = []"
| "chat_calls (ChatCreate req # evs) = req # chat_calls evs"
| "chat_calls (ev # evs) = chat_calls evs"

section \<open>The token list\<close>

definition markets_params :: object where
  "markets_params =
     [(''vs_currency'', str ''usd''),
      (''category'', str ''ai-agents''),
      (''order'', str ''market_cap_desc''),
      (''per_page'', JNum 100),
      (''page'', JNum 1),
      (''sparkline'', JBool False)]"

text \<open>\<^verbatim>\<open>xs.map(f)\<close> with a callback that may throw: the first throw ends the loop.\<close>

fun map_throwing :: "('a \<Rightarrow> error + 'b) \<Rightarrow> 'a list \<Rightarrow> error + 'b list" where
  "map_throwing f [] = Inr []"
| "map_throwing f (x # xs) =
     (case f x of
        Inl e \<Rightarrow> Inl e
      | Inr y \<Rightarrow> (case map_throwing f xs of Inl e \<Rightarrow> Inl e | Inr ys \<Rightarrow> Inr (y # ys)))"

text \<open>
  \<^verbatim>\<open>data.map(f)\<close>: only an array has the method; on anything else the call is a
  TypeError.
\<close>

fun call_map :: "(jsval \<Rightarrow> error + object) \<Rightarrow> jsval \<Rightarrow> error + object list" where
  "call_map f (JArr xs) = map_throwing f xs"
| "call_map f v = Inl TypeError"

text \<open>\<^verbatim>\<open>`${this.coingeckoApi}/coins/markets`\<close>\<close>

definition markets_url :: "TokenService \<Rightarrow> string" where
  "markets_url env = coingeckoApi env @ ''/coins/markets''"

definition fetchAiAgentTokens :: "TokenService \<Rightarrow> object list io" where
  "fetchAiAgentTokens env =
     try_catch
       (bind_io (http_get env (markets_url env) markets_params) (\<lambda>response.
        bind_io (lift_io (dot response ''data'')) (\<lambda>data.
        lift_io (call_map (formatAiAgentToken (toUpperCase env)) data))))
       (\<lambda>error.
        bind_io (console_error [Lit ''Failed to fetch AI agent tokens:''] error) (\<lambda>_.
        pure_io []))"

definition getAiAgentTokens :: "TokenService \<Rightarrow> object list io" where
  "getAiAgentTokens env = bind_io (fetchAiAgentTokens env) (\<lambda>tokens. pure_io tokens)"

section \<open>The token detail\<close>

definition details_params :: object where
  "details_params =
     [(''localization'', JBool False),
      (''tickers'', JBool False),
      (''market_data'', JBool True),
      (''community_data'', JBool False),
      (''developer_data'', JBool False),
      (''sparkline'', JBool True)]"

text \<open>\<^verbatim>\<open>`${this.coingeckoApi}/coins/${tokenId}`\<close>\<close>

definition details_url :: "TokenService \<Rightarrow> string \<Rightarrow> string" where
  "details_url env tokenId = coingeckoApi env @ ''/coins/'' @ tokenId"

text \<open>Resolves to the normalized record, or to null (\<open>None\<close>) after any failure.\<close>

definition fetchTokenDetails :: "TokenService \<Rightarrow> string \<Rightarrow> object option io" where
  "fetchTokenDetails env tokenId =
     try_catch
       (bind_io (http_get env (details_url env tokenId) details_params) (\<lambda>response.
        bind_io (lift_io (dot response ''data'')) (\<lambda>data.
        bind_io (lift_io (formatTokenDetails (toUpperCase env) data)) (\<lambda>token.
        pure_io (Some token)))))
       (\<lambda>error.
        bind_io (console_error [Lit (''Error fetching details for '' @ tokenId @ '':'')] error)
          (\<lambda>_.
        pure_io None))"

section \<open>The commentary generator\<close>

text \<open>
  The literal text of the prompt. A line break is the character 10; the four
  pictographs of the source are spelled as their UTF-8 bytes.
\<close>

definition nl :: string where
  "nl = [CHR 0x0A]"

definition indent :: string where
  "indent = ''      ''"

definition bar_chart :: string where
  "bar_chart = [CHR 0xF0, CHR 0x9F, CHR 0x93, CHR 0x8A]"

definition light_bulb :: string where
  "light_bulb = [CHR 0xF0, CHR 0x9F, CHR 0x92, CHR 0xA1]"

definition rocket :: string where
  "rocket = [CHR 0xF0, CHR 0x9F, CHR 0x9A, CHR 0x80]"

definition chart_down :: string where
  "chart_down = [CHR 0xF0, CHR 0x9F, CHR 0x93, CHR 0x89]"

definition developer_content :: string where
  "developer_content =
     ''You are a professional cryptocurrency analyst. Provide direct, data-driven '' @
     ''analysis and a clear investment recommendation based on technical and market '' @
     ''indicators. Be concise and avoid generic introductions.''"

definition recommendation_text :: string where
  "recommendation_text =
     nl @ indent @ nl @ indent @ ''### **'' @ light_bulb @ '' Investment Recommendation**'' @
     nl @ indent @ ''1. **Short-Term Outlook (Next 7 Days)**: '' @ rocket @
       '' **Bullish** or '' @ chart_down @ '' **Bearish**? Why?'' @
     nl @ indent @ ''2. **Support & Resistance Levels**: Where are the key buy & sell zones?'' @
     nl @ indent @ ''3. **Best Buy Zone**: What price range would be ideal for entry?'' @
     nl @ indent @ ''4. **Best Sell Zone**: Where should an investor take profit?'' @
     nl @ indent @ ''5. **Risk Factor**: What risks should be considered?'' @
     nl @ indent @ ''6. **Final Verdict**: **Buy, Hold, or Avoid?**'' @
     nl @ indent @ nl @ indent @ ''Provide specific numbers and avoid speculation.'' @
     nl @ indent @ indent @ indent"

text \<open>
  The user message: the template literal of \<^verbatim>\<open>getAiAnalysis\<close>, each hole a
  property read from \<^verbatim>\<open>token\<close>.
\<close>

definition user_content :: "jsval \<Rightarrow> error + template" where
  "user_content token =
     (if nullish token then Inl TypeError
      else template_literal
        [Lit (nl @ indent @ ''Analyze the AI-powered token **''),
         Hole (get_member token ''name''),
         Lit '' ('',
         Hole (get_member token ''symbol''),
         Lit ('')** and provide a **concise investment recommendation**.'' @
              nl @ indent @ nl @ indent @ bar_chart @ '' **Market Overview**:'' @
              nl @ indent @ ''- **Current Price**: $''),
         Hole (get_member token ''current_price''),
         Lit (nl @ indent @ ''- **Market Cap**: $''),
         Hole (get_member token ''market_cap''),
         Lit (nl @ indent @ ''- **Market Cap Rank**: #''),
         Hole (get_member token ''market_cap_rank''),
         Lit (nl @ indent @ ''- **Total Volume**: $''),
         Hole (get_member token ''total_volume''),
         Lit (nl @ indent @ ''- **24h High/Low**: $''),
         Hole (get_member token ''high_24h''),
         Lit '' / $'',
         Hole (get_member token ''low_24h''),
         Lit (nl @ indent @ ''- **24h Price Change**: $''),
         Hole (get_member token ''price_change_24h''),
         Lit '' ('',
         Hole (get_member token ''price_change_percentage_24h''),
         Lit (''%)'' @ nl @ indent @ ''- **ATH / ATL**: $''),
         Hole (get_member token ''ath''),
         Lit '' ('',
         Hole (get_member token ''ath_change_percentage''),
         Lit ''%) / $'',
         Hole (get_member token ''atl''),
         Lit '' ('',
         Hole (get_member token ''atl_change_percentage''),
         Lit (''%)'' @ nl @ indent @ ''- **Circulating Supply**: ''),
         Hole (get_member token ''circulating_supply''),
         Lit (nl @ indent @ ''- **Total Supply**: ''),
         Hole (get_member token ''total_supply''),
         Lit (nl @ indent @ ''- **24h Price Trend**: ''),
         Json (get_member token ''chart_data''),
         Lit recommendation_text])"

text \<open>\<^verbatim>\<open>choices[0]\<close>\<close>

fun index0 :: "jsval \<Rightarrow> error + jsval" where
  "index0 JUndefined = Inl TypeError"
| "index0 JNull = Inl TypeError"
| "index0 (JArr xs) = Inr (case xs of [] \<Rightarrow> JUndefined | x # _ \<Rightarrow> x)"
| "index0 (JStr s) = Inr (case s of [] \<Rightarrow> JUndefined | c # _ \<Rightarrow> JStr [c])"
| "index0 (JObj kvs) = Inr (get_member (JObj kvs) ''0'')"
| "index0 v = Inr JUndefined"

text \<open>\<^verbatim>\<open>response.choices[0].message.content\<close>\<close>

definition first_choice_content :: "jsval \<Rightarrow> error + jsval" where
  "first_choice_content response =
     (case dot response ''choices'' of
        Inl e \<Rightarrow> Inl e
      | Inr choices \<Rightarrow>
          (case index0 choices of
             Inl e \<Rightarrow> Inl e
           | Inr choice \<Rightarrow>
               (case dot choice ''message'' of
                  Inl e \<Rightarrow> Inl e
                | Inr message \<Rightarrow> dot message ''content'')))"

text \<open>The object passed to \<^verbatim>\<open>create\<close>, given the user message.\<close>

definition completion_request :: "template \<Rightarrow> chat_request" where
  "completion_request content =
     \<lparr>model = ''gpt-4o'',
      messages = [(''developer'', [Lit developer_content]), (''user'', content)],
      temperature = 8 / 10,
      max_tokens = 1000\<rparr>"

definition getAiAnalysis :: "TokenService \<Rightarrow> jsval \<Rightarrow> jsval io" where
  "getAiAnalysis env token =
     try_catch
       (bind_io (lift_io (user_content token)) (\<lambda>content.
        bind_io (chat_create env (completion_request content)) (\<lambda>response.
        lift_io (first_choice_content response))))
       (\<lambda>error.
        bind_io (lift_io (dot token ''name'')) (\<lambda>name.
        bind_io (lift_io (template_literal [Lit ''AI analysis failed for '', Hole name, Lit '':'']))
          (\<lambda>msg.
        bind_io (console_error msg error) (\<lambda>_.
        pure_io (str ''AI analysis unavailable.'')))))"

text \<open>
  \<^verbatim>\<open>getTokenDetails(tokenId)\<close>: null when the fetch gave null, else the record
  spread into a new object with \<^verbatim>\<open>ai_insight\<close> set.
\<close>

definition getTokenDetails :: "TokenService \<Rightarrow> string \<Rightarrow> object option io" where
  "getTokenDetails env tokenId =
     bind_io (fetchTokenDetails env tokenId) (\<lambda>token.
     case token of
       None \<Rightarrow> pure_io None
     | Some t \<Rightarrow>
         bind_io (getAiAnalysis env (JObj t)) (\<lambda>aiAnalysis.
         pure_io (Some (AList.update ''ai_insight''
                          (js_or aiAnalysis (str ''No AI insight available.'')) t))))"

section \<open>Tables read off the two normalizers\<close>

text \<open>The keys of a list-view record, in the order the object literal writes them.\<close>

definition summary_keys :: "string list" where
  "summary_keys =
     [''id'', ''name'', ''symbol'', ''image'', ''current_price'', ''market_cap'',
      ''market_cap_rank'', ''total_volume'', ''high_24h'', ''low_24h'', ''price_change_24h'',
      ''price_change_percentage_24h'', ''circulating_supply'', ''total_supply'',
      ''max_supply'', ''ath'', ''ath_change_percentage'', ''atl'', ''atl_change_percentage'',
      ''last_updated'']"

definition summary_numeric_fields :: "string list" where
  "summary_numeric_fields =
     [''current_price'', ''market_cap'', ''total_volume'', ''high_24h'', ''low_24h'',
      ''price_change_24h'', ''price_change_percentage_24h'', ''circulating_supply'',
      ''total_supply'', ''ath'', ''ath_change_percentage'', ''atl'',
      ''atl_change_percentage'']"

definition nullable_fields :: "string list" where
  "nullable_fields = [''market_cap_rank'', ''max_supply'']"

text \<open>
  The list-view fields written as \<^verbatim>\<open>token.k || d\<close>, each with its default \<open>d\<close>.
  (\<^verbatim>\<open>symbol\<close> is upper-cased before the test, \<^verbatim>\<open>id\<close> and \<^verbatim>\<open>name\<close> are
  copied without one.)
\<close>

definition summary_defaults :: "(string \<times> jsval) list" where
  "summary_defaults =
     [(''image'', str ''''),
      (''current_price'', JNum 0),
      (''market_cap'', JNum 0),
      (''market_cap_rank'', JNull),
      (''total_volume'', JNum 0),
      (''high_24h'', JNum 0),
      (''low_24h'', JNum 0),
      (''price_change_24h'', JNum 0),
      (''price_change_percentage_24h'', JNum 0),
      (''circulating_supply'', JNum 0),
      (''total_supply'', JNum 0),
      (''max_supply'', JNull),
      (''ath'', JNum 0),
      (''ath_change_percentage'', JNum 0),
      (''atl'', JNum 0),
      (''atl_change_percentage'', JNum 0),
      (''last_updated'', str ''N/A'')]"

text \<open>The keys of a detail-view record.\<close>

definition detail_keys :: "string list" where
  "detail_keys =
     [''id'', ''name'', ''symbol'', ''image'', ''market_cap_rank'', ''current_price'',
      ''market_cap'', ''total_volume'', ''price_change_24h'', ''price_change_percentage_24h'',
      ''circulating_supply'', ''total_supply'', ''max_supply'', ''ath'',
      ''ath_change_percentage'', ''ath_date'', ''atl'', ''atl_change_percentage'', ''atl_date'',
      ''last_updated'', ''chart_data'']"

text \<open>\<^verbatim>\<open>token?.a?.b?.c\<close> for the path \<open>[a, b, c]\<close>.\<close>

definition read_path :: "jsval \<Rightarrow> string list \<Rightarrow> jsval" where
  "read_path token path = foldl opt_dot token path"

text \<open>
  The detail-view fields written as \<^verbatim>\<open>path || d\<close>: the field, the upstream path
  it is read from, and its default.
\<close>

definition detail_defaults :: "(string \<times> string list \<times> jsval) list" where
  "detail_defaults =
     [(''market_cap_rank'', [''market_cap_rank''], JNull),
      (''current_price'', [''market_data'', ''current_price'', ''usd''], JNum 0),
      (''market_cap'', [''market_data'', ''market_cap'', ''usd''], JNum 0),
      (''total_volume'', [''market_data'', ''total_volume'', ''usd''], JNum 0),
      (''price_change_24h'', [''market_data'', ''price_change_24h''], JNum 0),
      (''price_change_percentage_24h'', [''market_data'', ''price_change_percentage_24h''],
         JNum 0),
      (''circulating_supply'', [''market_data'', ''circulating_supply''], JNum 0),
      (''total_supply'', [''market_data'', ''total_supply''], JNum 0),
      (''max_supply'', [''market_data'', ''max_supply''], JNull),
      (''ath'', [''market_data'', ''ath'', ''usd''], JNum 0),
      (''ath_change_percentage'', [''market_data'', ''ath_change_percentage''], JNum 0),
      (''ath_date'', [''market_data'', ''ath_date''], str ''N/A''),
      (''atl'', [''market_data'', ''atl'', ''usd''], JNum 0),
      (''atl_change_percentage'', [''market_data'', ''atl_change_percentage''], JNum 0),
      (''atl_date'', [''market_data'', ''atl_date''], str ''N/A''),
      (''last_updated'', [''last_updated''], str ''N/A'')]"

text \<open>
  The field \<open>k\<close> of the record a normalizer returns, or the error it throws.
\<close>

definition field_of :: "error + object \<Rightarrow> string \<Rightarrow> error + jsval" where
  "field_of r k = (case r of Inl e \<Rightarrow> Inl e | Inr out \<Rightarrow> Inr (get_member (JObj out) k))"

text \<open>
  The values on which \<^verbatim>\<open>?.toUpperCase()\<close> does not throw (null, undefined and
  strings), and those on which \<^verbatim>\<open>?.slice(-24)\<close> does not (these and arrays).
\<close>

fun upper_casable :: "jsval \<Rightarrow> bool" where
  "upper_casable JUndefined = True"
| "upper_casable JNull = True"
| "upper_casable (JStr s) = True"
| "upper_casable v = False"

fun sliceable :: "jsval \<Rightarrow> bool" where
  "sliceable JUndefined = True"
| "sliceable JNull = True"
| "sliceable (JArr xs) = True"
| "sliceable (JStr s) = True"
| "sliceable v = False"

text \<open>The upstream 7-day sparkline: \<^verbatim>\<open>token.market_data?.sparkline_7d?.price\<close>.\<close>

definition sparkline :: "jsval \<Rightarrow> jsval" where
  "sparkline token = read_path token [''market_data'', ''sparkline_7d'', ''price'']"

text \<open>The values put in the holes of a template, in order.\<close>

fun holes :: "template \<Rightarrow> jsval list" where
  "holes [] = []"
| "holes (Lit s # t) = holes t"
| "holes (Hole v # t) = v # holes t"
| "holes (Json v # t) = v # holes t"

text \<open>
  The try block of \<^verbatim>\<open>getAiAnalysis\<close> as a value: the content it returns, or the
  error thrown inside it.
\<close>

definition generation :: "TokenService \<Rightarrow> jsval \<Rightarrow> error + jsval" where
  "generation env token =
     (case user_content token of
        Inl e \<Rightarrow> Inl e
      | Inr content \<Rightarrow>
          (case openai_create env (completion_request content) of
             Inl e \<Rightarrow> Inl e
           | Inr response \<Rightarrow> first_choice_content response))"

text \<open>The values interpolated into the prompt written for a record.\<close>

definition prompt_holes :: "jsval \<Rightarrow> error + jsval list" where
  "prompt_holes token =
     (case user_content token of Inl e \<Rightarrow> Inl e | Inr content \<Rightarrow> Inr (holes content))"

section \<open>Example payloads and collaborators\<close>

text \<open>
  An upper-casing function to run the examples with: it maps the code units of
  \<^verbatim>\<open>a\<close> to \<^verbatim>\<open>z\<close> to those of \<^verbatim>\<open>A\<close> to \<^verbatim>\<open>Z\<close>, as the runtime's does on ASCII text.
\<close>

definition ascii_upper :: "code_unit list \<Rightarrow> code_unit list" where
  "ascii_upper s = map (\<lambda>u. if 97 \<le> u \<and> u \<le> 122 then u - 32 else u) s"

text \<open>A list record that has only its identifier, name and symbol.\<close>

definition partial_listing :: jsval where
  "partial_listing =
     JObj [(''id'', str ''bitcoin''), (''name'', str ''Bitcoin''), (''symbol'', str ''btc'')]"

text \<open>A list record whose fields are present but falsy.\<close>

definition falsy_listing :: jsval where
  "falsy_listing =
     JObj [(''id'', str ''bitcoin''), (''name'', str ''Bitcoin''), (''symbol'', str ''''),
           (''current_price'', JNull), (''market_cap_rank'', JNum 0),
           (''last_updated'', str '''')]"

text \<open>
  A detail record: the identifier, name and symbol, the price with its 24h high and
  low, and a sparkline of 26 points.
\<close>

definition bitcoin_detail :: jsval where
  "bitcoin_detail =
     JObj [(''id'', str ''bitcoin''), (''name'', str ''Bitcoin''), (''symbol'', str ''btc''),
           (''market_data'', JObj
              [(''current_price'', JObj [(''usd'', JNum 42000)]),
               (''high_24h'', JObj [(''usd'', JNum 43000)]),
               (''low_24h'', JObj [(''usd'', JNum 41000)]),
               (''sparkline_7d'', JObj
                  [(''price'', JArr
                     [JNum 1, JNum 2, JNum 3, JNum 4, JNum 5, JNum 6, JNum 7, JNum 8, JNum 9,
                      JNum 10, JNum 11, JNum 12, JNum 13, JNum 14, JNum 15, JNum 16, JNum 17,
                      JNum 18, JNum 19, JNum 20, JNum 21, JNum 22, JNum 23, JNum 24, JNum 25,
                      JNum 26])])])]"

text \<open>Records whose symbol, or whose sparkline, is the number 0.\<close>

definition zero_symbol :: jsval where
  "zero_symbol = JObj [(''id'', str ''bitcoin''), (''name'', str ''Bitcoin''), (''symbol'', JNum 0)]"

definition zero_sparkline :: jsval where
  "zero_sparkline =
     JObj [(''id'', str ''bitcoin''), (''name'', str ''Bitcoin''), (''symbol'', str ''btc''),
           (''market_data'', JObj [(''sparkline_7d'', JObj [(''price'', JNum 0)])])]"

text \<open>A detail record whose fields are present but falsy.\<close>

definition falsy_detail :: jsval where
  "falsy_detail =
     JObj [(''id'', str ''bitcoin''), (''name'', str ''Bitcoin''), (''symbol'', str ''''),
           (''image'', JObj [(''thumb'', str '''')]),
           (''market_cap_rank'', JNum 0),
           (''market_data'', JObj
              [(''current_price'', JObj [(''usd'', JNull)]),
               (''total_supply'', JNum 0),
               (''sparkline_7d'', JObj [(''price'', JNull)])]),
           (''last_updated'', str '''')]"

text \<open>
  The list-view record with the given identifier, name and symbol and every other field
  at its default; the detail-view record likewise, with a price and a price history.
\<close>

definition blank_summary :: "jsval \<Rightarrow> jsval \<Rightarrow> jsval \<Rightarrow> object" where
  "blank_summary i n s =
     [(''id'', i), (''name'', n), (''symbol'', s), (''image'', str ''''),
      (''current_price'', JNum 0), (''market_cap'', JNum 0), (''market_cap_rank'', JNull),
      (''total_volume'', JNum 0), (''high_24h'', JNum 0), (''low_24h'', JNum 0),
      (''price_change_24h'', JNum 0), (''price_change_percentage_24h'', JNum 0),
      (''circulating_supply'', JNum 0), (''total_supply'', JNum 0), (''max_supply'', JNull),
      (''ath'', JNum 0), (''ath_change_percentage'', JNum 0), (''atl'', JNum 0),
      (''atl_change_percentage'', JNum 0), (''last_updated'', str ''N/A'')]"

definition blank_detail :: "jsval \<Rightarrow> jsval \<Rightarrow> jsval \<Rightarrow> jsval \<Rightarrow> jsval \<Rightarrow> object" where
  "blank_detail i n s price chart =
     [(''id'', i), (''name'', n), (''symbol'', s),
      (''image'', JObj [(''thumb'', str ''''), (''small'', str ''''), (''large'', str '''')]),
      (''market_cap_rank'', JNull), (''current_price'', price), (''market_cap'', JNum 0),
      (''total_volume'', JNum 0), (''price_change_24h'', JNum 0),
      (''price_change_percentage_24h'', JNum 0), (''circulating_supply'', JNum 0),
      (''total_supply'', JNum 0), (''max_supply'', JNull), (''ath'', JNum 0),
      (''ath_change_percentage'', JNum 0), (''ath_date'', str ''N/A''), (''atl'', JNum 0),
      (''atl_change_percentage'', JNum 0), (''atl_date'', str ''N/A''),
      (''last_updated'', str ''N/A''), (''chart_data'', chart)]"

definition last_24_points :: "jsval list" where
  "last_24_points =
     [JNum 3, JNum 4, JNum 5, JNum 6, JNum 7, JNum 8, JNum 9, JNum 10, JNum 11, JNum 12,
      JNum 13, JNum 14, JNum 15, JNum 16, JNum 17, JNum 18, JNum 19, JNum 20, JNum 21,
      JNum 22, JNum 23, JNum 24, JNum 25, JNum 26]"

definition bitcoin_normalized :: object where
  "bitcoin_normalized =
     blank_detail (str ''bitcoin'') (str ''Bitcoin'') (str ''BTC'') (JNum 42000)
       (JArr last_24_points)"

text \<open>Stub collaborators: a provider that is down or serves a payload, a generator
  that is down or answers a text.\<close>

definition network_down :: "string \<Rightarrow> object \<Rightarrow> error + jsval" where
  "network_down url params = Inl (Rejected ''Network Error'')"

definition serves :: "jsval \<Rightarrow> string \<Rightarrow> object \<Rightarrow> error + jsval" where
  "serves data url params = Inr (JObj [(''data'', data)])"

definition generation_down :: "chat_request \<Rightarrow> error + jsval" where
  "generation_down req = Inl (Rejected ''Connection error.'')"

definition completion :: "jsval \<Rightarrow> jsval" where
  "completion content =
     JObj [(''choices'', JArr [JObj [(''message'', JObj [(''content'', content)])]])]"

definition answers :: "jsval \<Rightarrow> chat_request \<Rightarrow> error + jsval" where
  "answers content req = Inr (completion content)"

definition stub_service ::
  "(string \<Rightarrow> object \<Rightarrow> error + jsval) \<Rightarrow> (chat_request \<Rightarrow> error + jsval) \<Rightarrow> TokenService" where
  "stub_service axios openai =
     \<lparr>coingeckoApi = ''https://api.coingecko.com/api/v3'',
      toUpperCase = ascii_upper,
      axios_get = axios,
      openai_create = openai\<rparr>"

text \<open>The user message written for the normalized example record.\<close>

definition bitcoin_prompt :: template where
  "bitcoin_prompt =
     (case user_content (JObj bitcoin_normalized) of Inl e \<Rightarrow> [] | Inr content \<Rightarrow> content)"

section \<open>Facts about the helpers\<close>

lemma units_eq_iff [simp]: "units a = units b \<longleftrightarrow> a = b"
  by (simp add: units_def inj_map_eq_map inj_on_def)

lemma units_empty_iff [simp]: "units s = [] \<longleftrightarrow> s = []" "[] = units s \<longleftrightarrow> s = []"
  by (auto simp: units_def)

lemma ascii_upper_empty_iff: "ascii_upper s = [] \<longleftrightarrow> s = []"
  by (simp add: ascii_upper_def)

lemma ascii_upper_btc: "ascii_upper (units ''btc'') = units ''BTC''"
  by (simp add: ascii_upper_def units_def)

lemma js_or_defined: "d \<noteq> JUndefined \<Longrightarrow> js_or v d \<noteq> JUndefined"
  by (cases v) (auto simp: js_or_def)

lemma js_or_not_null: "d \<noteq> JNull \<Longrightarrow> js_or v d \<noteq> JNull"
  by (cases v) (auto simp: js_or_def)

lemma opt_dot_not_nullish: "\<not> nullish v \<Longrightarrow> opt_dot v k = get_member v k"
  by (simp add: opt_dot_def)

lemma length_slice: "length (slice (- 24) xs) = min 24 (length xs)"
  by (auto simp: slice_def Let_def)

lemma slice_last_24: "slice (- 24) xs = drop (length xs - 24) xs"
proof -
  have "nat (max (int (length xs) + - 24) 0) = length xs - 24"
    by auto
  then show ?thesis
    by (simp add: slice_def Let_def)
qed

text \<open>What the list normalizer returns, field by field.\<close>

lemma summary_keys_of:
  assumes "formatAiAgentToken to_upper token = Inr out"
  shows "map fst out = summary_keys"
  using assms unfolding formatAiAgentToken_def summary_keys_def
  by (auto split: if_splits sum.splits)

lemma summary_field:
  assumes "formatAiAgentToken to_upper token = Inr out" and "(k, d) \<in> set summary_defaults"
  shows "get_member (JObj out) k = js_or (get_member token k) d"
  using assms unfolding formatAiAgentToken_def summary_defaults_def
  by (auto split: if_splits sum.splits)

lemma summary_id_name:
  assumes "formatAiAgentToken to_upper token = Inr out"
  shows "get_member (JObj out) ''id'' = get_member token ''id''"
    and "get_member (JObj out) ''name'' = get_member token ''name''"
  using assms unfolding formatAiAgentToken_def
  by (auto split: if_splits sum.splits)

lemma summary_symbol:
  assumes "formatAiAgentToken to_upper token = Inr out"
  shows "\<exists>upper. opt_toUpperCase to_upper (get_member token ''symbol'') = Inr upper \<and>
           get_member (JObj out) ''symbol'' = js_or upper (str ''N/A'')"
  using assms unfolding formatAiAgentToken_def
  by (auto split: if_splits sum.splits)

text \<open>The same for the detail normalizer.\<close>

lemma detail_keys_of:
  assumes "formatTokenDetails to_upper token = Inr out"
  shows "map fst out = detail_keys"
  using assms unfolding formatTokenDetails_def detail_keys_def
  by (auto simp: Let_def split: if_splits sum.splits)

lemma detail_field:
  assumes "formatTokenDetails to_upper token = Inr out" and "(k, path, d) \<in> set detail_defaults"
  shows "get_member (JObj out) k = js_or (read_path token path) d"
  using assms unfolding formatTokenDetails_def detail_defaults_def read_path_def
  by (auto simp: Let_def opt_dot_not_nullish split: if_splits sum.splits)

lemma detail_id_name:
  assumes "formatTokenDetails to_upper token = Inr out"
  shows "get_member (JObj out) ''id'' = get_member token ''id''"
    and "get_member (JObj out) ''name'' = get_member token ''name''"
  using assms unfolding formatTokenDetails_def
  by (auto simp: Let_def split: if_splits sum.splits)

lemma detail_symbol:
  assumes "formatTokenDetails to_upper token = Inr out"
  shows "\<exists>upper. opt_toUpperCase to_upper (get_member token ''symbol'') = Inr upper \<and>
           get_member (JObj out) ''symbol'' = js_or upper (str ''N/A'')"
  using assms unfolding formatTokenDetails_def
  by (auto simp: Let_def split: if_splits sum.splits)

lemma detail_image:
  assumes "formatTokenDetails to_upper token = Inr out"
  shows "get_member (JObj out) ''image'' =
           JObj [(''thumb'', js_or (read_path token [''image'', ''thumb'']) (str '''')),
                 (''small'', js_or (read_path token [''image'', ''small'']) (str '''')),
                 (''large'', js_or (read_path token [''image'', ''large'']) (str ''''))]"
  using assms unfolding formatTokenDetails_def read_path_def
  by (auto simp: Let_def opt_dot_not_nullish split: if_splits sum.splits)

lemma detail_chart:
  assumes "formatTokenDetails to_upper token = Inr out"
  shows "\<exists>chart. opt_slice24 (sparkline token) = Inr chart \<and>
           get_member (JObj out) ''chart_data'' = js_or chart (JArr [])"
  using assms unfolding formatTokenDetails_def sparkline_def read_path_def
  by (auto simp: Let_def opt_dot_not_nullish split: if_splits sum.splits)

text \<open>Which records the normalizers accept.\<close>

lemma opt_toUpperCase_error: "opt_toUpperCase to_upper v = Inl e \<Longrightarrow> e = TypeError"
  by (cases v) simp_all

lemma opt_slice24_error: "opt_slice24 v = Inl e \<Longrightarrow> e = TypeError"
  by (cases v) simp_all

lemma summary_accepts:
  assumes "\<not> nullish token" and "upper_casable (get_member token ''symbol'')"
  shows "\<exists>out. formatAiAgentToken to_upper token = Inr out"
  using assms unfolding formatAiAgentToken_def
  by (cases "get_member token ''symbol''") simp_all

lemma summary_rejects:
  assumes "\<not> upper_casable (get_member token ''symbol'')"
  shows "formatAiAgentToken to_upper token = Inl TypeError"
  using assms unfolding formatAiAgentToken_def
  by (cases "get_member token ''symbol''") simp_all

lemma detail_accepts:
  assumes "\<not> nullish token" and "upper_casable (get_member token ''symbol'')"
    and "sliceable (sparkline token)"
  shows "\<exists>out. formatTokenDetails to_upper token = Inr out"
proof -
  obtain upper where "opt_toUpperCase to_upper (get_member token ''symbol'') = Inr upper"
    using assms(2) by (cases "get_member token ''symbol''") simp_all
  moreover obtain chart where "opt_slice24 (sparkline token) = Inr chart"
    using assms(3) by (cases "sparkline token") simp_all
  ultimately show ?thesis
    using assms(1) unfolding formatTokenDetails_def sparkline_def read_path_def
    by (simp add: Let_def opt_dot_not_nullish)
qed

lemma detail_rejects:
  assumes "\<not> upper_casable (get_member token ''symbol'') \<or> \<not> sliceable (sparkline token)"
  shows "formatTokenDetails to_upper token = Inl TypeError"
proof (cases "nullish token")
  case True
  then show ?thesis
    by (simp add: formatTokenDetails_def)
next
  case False
  have "opt_toUpperCase to_upper (get_member token ''symbol'') = Inl TypeError \<or>
      opt_slice24 (sparkline token) = Inl TypeError"
    using assms
    by (cases "get_member token ''symbol''"; cases "sparkline token") simp_all
  then show ?thesis
    using False unfolding formatTokenDetails_def sparkline_def read_path_def
    by (auto simp: Let_def opt_dot_not_nullish split: sum.splits
        dest: opt_toUpperCase_error opt_slice24_error)
qed

lemma field_of_Inr: "r = Inr out \<Longrightarrow> field_of r k = Inr (get_member (JObj out) k)"
  by (simp add: field_of_def)

section \<open>The normalizers on the example payloads\<close>

lemma format_partial_listing:
  "formatAiAgentToken ascii_upper partial_listing =
     Inr (blank_summary (str ''bitcoin'') (str ''Bitcoin'') (str ''BTC''))"
  by (simp add: formatAiAgentToken_def partial_listing_def blank_summary_def js_or_def
      ascii_upper_btc)

lemma format_falsy_listing:
  "formatAiAgentToken ascii_upper falsy_listing =
     Inr (blank_summary (str ''bitcoin'') (str ''Bitcoin'') (str ''N/A''))"
  by (simp add: formatAiAgentToken_def falsy_listing_def blank_summary_def js_or_def
      ascii_upper_def)

lemma sparkline_bitcoin_detail:
  "sparkline bitcoin_detail = JArr (JNum 1 # JNum 2 # last_24_points)"
  by (simp add: sparkline_def read_path_def bitcoin_detail_def opt_dot_def last_24_points_def)

lemma format_bitcoin_detail: "formatTokenDetails ascii_upper bitcoin_detail = Inr bitcoin_normalized"
  by (simp add: formatTokenDetails_def bitcoin_detail_def bitcoin_normalized_def
      blank_detail_def js_or_def opt_dot_def ascii_upper_btc slice_def last_24_points_def)

lemma format_falsy_detail:
  "formatTokenDetails ascii_upper falsy_detail =
     Inr (blank_detail (str ''bitcoin'') (str ''Bitcoin'') (str ''N/A'') (JNum 0) (JArr []))"
  by (simp add: formatTokenDetails_def falsy_detail_def blank_detail_def js_or_def opt_dot_def
      ascii_upper_def)

text \<open>Every field but \<^verbatim>\<open>id\<close> and \<^verbatim>\<open>name\<close> is written with a default.\<close>

lemma get_member_listed:
  assumes "k \<in> set (map fst out)"
  shows "(k, get_member (JObj out) k) \<in> set out"
proof -
  from assms obtain v where "map_of out k = Some v"
    by (cases "map_of out k") (auto simp: map_of_eq_None_iff)
  then show ?thesis
    by (auto dest: map_of_SomeD)
qed

lemma summary_values_defined:
  assumes "formatAiAgentToken to_upper token = Inr out"
  shows "list_all (\<lambda>(k, v). k = ''id'' \<or> k = ''name'' \<or> v \<noteq> JUndefined) out"
  using assms unfolding formatAiAgentToken_def
  by (auto simp: js_or_defined split: if_splits sum.splits)

lemma detail_values_defined:
  assumes "formatTokenDetails to_upper token = Inr out"
  shows "list_all (\<lambda>(k, v). k = ''id'' \<or> k = ''name'' \<or> v \<noteq> JUndefined) out"
  using assms unfolding formatTokenDetails_def
  by (auto simp: Let_def js_or_defined split: if_splits sum.splits)

lemma listed_defined:
  assumes "list_all (\<lambda>(k, v). k = ''id'' \<or> k = ''name'' \<or> v \<noteq> JUndefined) out"
    and "k \<in> set (map fst out)" and "k \<noteq> ''id''" and "k \<noteq> ''name''"
  shows "get_member (JObj out) k \<noteq> JUndefined"
  using assms(1,3,4) get_member_listed [OF assms(2)]
  unfolding list_all_iff by blast

text \<open>The detail normalizer writes no 24h high or low.\<close>

lemma detail_has_no_high_low:
  assumes "formatTokenDetails to_upper token = Inr t"
  shows "get_member (JObj t) ''high_24h'' = JUndefined"
    and "get_member (JObj t) ''low_24h'' = JUndefined"
proof -
  have "''high_24h'' \<notin> set (map fst t)" and "''low_24h'' \<notin> set (map fst t)"
    unfolding detail_keys_of [OF assms] by (simp_all add: detail_keys_def)
  then have "map_of t ''high_24h'' = None" and "map_of t ''low_24h'' = None"
    by (simp_all add: map_of_eq_None_iff)
  then show "get_member (JObj t) ''high_24h'' = JUndefined"
    and "get_member (JObj t) ''low_24h'' = JUndefined"
    by simp_all
qed

section \<open>Facts about the operations\<close>

text \<open>The three ways the try block of the list fetch can fail, and its success.\<close>

lemma fetchAiAgentTokens_cases:
  "fetchAiAgentTokens env =
     (let url = markets_url env;
          failed = (\<lambda>e. (Inr [], [HttpGet url markets_params,
                      ConsoleError [Lit ''Failed to fetch AI agent tokens:''] e]))
      in case axios_get env url markets_params of
           Inl e \<Rightarrow> failed e
         | Inr response \<Rightarrow>
             (case dot response ''data'' of
                Inl e \<Rightarrow> failed e
              | Inr data \<Rightarrow>
                  (case call_map (formatAiAgentToken (toUpperCase env)) data of
                     Inl e \<Rightarrow> failed e
                   | Inr tokens \<Rightarrow> (Inr tokens, [HttpGet url markets_params]))))"
  by (simp add: fetchAiAgentTokens_def try_catch_def bind_io_def lift_io_def pure_io_def
      http_get_def console_error_def Let_def split: sum.splits)

lemma getAiAgentTokens_fetch: "getAiAgentTokens env = fetchAiAgentTokens env"
  by (cases "fetchAiAgentTokens env")
    (auto simp: getAiAgentTokens_def bind_io_def pure_io_def split: sum.splits)

text \<open>The same for the detail fetch.\<close>

lemma fetchTokenDetails_cases:
  "fetchTokenDetails env tokenId =
     (let url = details_url env tokenId;
          failed = (\<lambda>e. (Inr None, [HttpGet url details_params,
                      ConsoleError [Lit (''Error fetching details for '' @ tokenId @ '':'')] e]))
      in case axios_get env url details_params of
           Inl e \<Rightarrow> failed e
         | Inr response \<Rightarrow>
             (case dot response ''data'' of
                Inl e \<Rightarrow> failed e
              | Inr data \<Rightarrow>
                  (case formatTokenDetails (toUpperCase env) data of
                     Inl e \<Rightarrow> failed e
                   | Inr token \<Rightarrow> (Inr (Some token), [HttpGet url details_params]))))"
  by (simp add: fetchTokenDetails_def try_catch_def bind_io_def lift_io_def pure_io_def
      http_get_def console_error_def Let_def split: sum.splits)

lemma fetchTokenDetails_fetched:
  assumes "axios_get env (details_url env tokenId) details_params = Inr response"
    and "dot response ''data'' = Inr data"
    and "formatTokenDetails (toUpperCase env) data = Inr t"
  shows "fetchTokenDetails env tokenId =
           (Inr (Some t), [HttpGet (details_url env tokenId) details_params])"
  by (simp add: fetchTokenDetails_cases assms)

text \<open>
  The generator on a normalized record: it returns what the try block returned; when
  the try block threw it returns the fallback, unless writing the log line throws too.
\<close>

lemma getAiAnalysis_result:
  "fst (getAiAnalysis env (JObj t)) =
     (case generation env (JObj t) of
        Inr content \<Rightarrow> Inr content
      | Inl e \<Rightarrow>
          if toString_throws (get_member (JObj t) ''name'') then Inl TypeError
          else Inr (str ''AI analysis unavailable.''))"
  by (simp add: getAiAnalysis_def generation_def try_catch_def bind_io_def lift_io_def
      pure_io_def chat_create_def console_error_def template_literal_def dot_def
      split: sum.splits prod.splits)

lemma user_content_name:
  assumes "user_content (JObj t) = Inr content"
  shows "\<not> toString_throws (get_member (JObj t) ''name'')"
  using assms unfolding user_content_def template_literal_def
  by (auto split: if_splits)

text \<open>Spreading a record that has no \<^verbatim>\<open>ai_insight\<close> appends the new field.\<close>

lemma update_fresh: "k \<notin> fst ` set kvs \<Longrightarrow> AList.update k v kvs = kvs @ [(k, v)]"
  by (induction kvs) auto

lemma detail_no_ai_insight:
  assumes "formatTokenDetails to_upper token = Inr t"
  shows "''ai_insight'' \<notin> fst ` set t"
proof -
  have "''ai_insight'' \<notin> set detail_keys"
    by (simp add: detail_keys_def)
  then show ?thesis
    using detail_keys_of [OF assms] by (metis list.set_map)
qed

lemma getTokenDetails_fetched:
  assumes "axios_get env (details_url env tokenId) details_params = Inr response"
    and "dot response ''data'' = Inr data"
    and "formatTokenDetails (toUpperCase env) data = Inr t"
  shows "fst (getTokenDetails env tokenId) =
     (case fst (getAiAnalysis env (JObj t)) of
        Inl e \<Rightarrow> Inl e
      | Inr aiAnalysis \<Rightarrow>
          Inr (Some (t @ [(''ai_insight'', js_or aiAnalysis (str ''No AI insight available.''))])))"
  by (cases "getAiAnalysis env (JObj t)")
    (simp add: getTokenDetails_def fetchTokenDetails_fetched [OF assms] bind_io_def pure_io_def
      update_fresh [OF detail_no_ai_insight [OF assms(3)]] split: sum.splits)

lemma stub_service_simps:
  "coingeckoApi (stub_service axios openai) = ''https://api.coingecko.com/api/v3''"
  "axios_get (stub_service axios openai) = axios"
  "openai_create (stub_service axios openai) = openai"
  "toUpperCase (stub_service axios openai) = ascii_upper"
  by (simp_all add: stub_service_def)

lemma serves_data: "dot (JObj [(''data'', data)]) ''data'' = Inr data"
  by (simp add: dot_def)

lemma first_choice_content_completion: "first_choice_content (completion content) = Inr content"
  by (simp add: first_choice_content_def completion_def dot_def)

lemma user_content_bitcoin: "user_content (JObj bitcoin_normalized) = Inr bitcoin_prompt"
  by (simp add: bitcoin_prompt_def user_content_def template_literal_def bitcoin_normalized_def
      blank_detail_def)

lemma serves_bitcoin:
  "axios_get (stub_service (serves bitcoin_detail) openai)
     (details_url (stub_service (serves bitcoin_detail) openai) ''bitcoin'') details_params =
   Inr (JObj [(''data'', bitcoin_detail)])"
  by (simp add: stub_service_simps serves_def)

lemma format_bitcoin_served:
  "formatTokenDetails (toUpperCase (stub_service axios openai)) bitcoin_detail =
     Inr bitcoin_normalized"
  by (simp only: stub_service_simps format_bitcoin_detail)

section \<open>Claims about the normalizers\<close>

text \<open>
  C6. For every upstream list record the normalizer accepts: a numeric field of the
  summary is never null or undefined, and is 0 when the upstream field is missing;
  \<^verbatim>\<open>market_cap_rank\<close> and \<^verbatim>\<open>max_supply\<close> are null when missing upstream.
\<close>

theorem C6_missing_numeric_fields_are_zero:
  assumes "formatAiAgentToken to_upper token = Inr out"
  shows "(k \<in> set summary_numeric_fields \<longrightarrow>
            get_member (JObj out) k \<noteq> JNull \<and> get_member (JObj out) k \<noteq> JUndefined \<and>
            (get_member token k = JUndefined \<longrightarrow> get_member (JObj out) k = JNum 0)) \<and>
         (k \<in> set nullable_fields \<longrightarrow> get_member token k = JUndefined \<longrightarrow>
            get_member (JObj out) k = JNull)"
proof (intro conjI impI)
  assume k: "k \<in> set summary_numeric_fields"
  then have "(k, JNum 0) \<in> set summary_defaults"
    by (auto simp: summary_numeric_fields_def summary_defaults_def)
  then have out: "get_member (JObj out) k = js_or (get_member token k) (JNum 0)"
    by (rule summary_field [OF assms])
  show "get_member (JObj out) k \<noteq> JNull"
    unfolding out by (rule js_or_not_null) simp
  show "get_member (JObj out) k \<noteq> JUndefined"
    unfolding out by (rule js_or_defined) simp
  show "get_member (JObj out) k = JNum 0" if "get_member token k = JUndefined"
    unfolding out that by (simp add: js_or_def)
next
  assume "k \<in> set nullable_fields" and missing: "get_member token k = JUndefined"
  then have "(k, JNull) \<in> set summary_defaults"
    by (auto simp: nullable_fields_def summary_defaults_def)
  then have out: "get_member (JObj out) k = js_or (get_member token k) JNull"
    by (rule summary_field [OF assms])
  show "get_member (JObj out) k = JNull"
    unfolding out missing by (simp add: js_or_def)
qed

theorem C6_witness:
  "formatAiAgentToken ascii_upper partial_listing =
     Inr (blank_summary (str ''bitcoin'') (str ''Bitcoin'') (str ''BTC'')) \<and>
   ''market_cap'' \<in> set summary_numeric_fields \<and>
   get_member partial_listing ''market_cap'' = JUndefined \<and>
   get_member (JObj (blank_summary (str ''bitcoin'') (str ''Bitcoin'') (str ''BTC'')))
     ''market_cap'' = JNum 0 \<and>
   ''max_supply'' \<in> set nullable_fields \<and>
   get_member partial_listing ''max_supply'' = JUndefined \<and>
   get_member (JObj (blank_summary (str ''bitcoin'') (str ''Bitcoin'') (str ''BTC'')))
     ''max_supply'' = JNull"
proof -
  have numeric: "''market_cap'' \<in> set summary_numeric_fields"
    by (simp add: summary_numeric_fields_def)
  have nullable: "''max_supply'' \<in> set nullable_fields"
    by (simp add: nullable_fields_def)
  have missing: "get_member partial_listing ''market_cap'' = JUndefined"
    "get_member partial_listing ''max_supply'' = JUndefined"
    by (simp_all add: partial_listing_def)
  show ?thesis
    using C6_missing_numeric_fields_are_zero [OF format_partial_listing, of "''market_cap''"]
      C6_missing_numeric_fields_are_zero [OF format_partial_listing, of "''max_supply''"]
      numeric nullable missing format_partial_listing
    by blast
qed

text \<open>
  C4, as stated, fails: \<^verbatim>\<open>id\<close> and \<^verbatim>\<open>name\<close> are copied with no default, so a
  record without them is normalized to one whose \<^verbatim>\<open>id\<close> and \<^verbatim>\<open>name\<close> are
  undefined. Here both normalizers are run on the record \<^verbatim>\<open>{symbol: "btc"}\<close>.
\<close>

theorem C4_counterexample:
  "formatAiAgentToken ascii_upper (JObj [(''symbol'', str ''btc'')]) =
     Inr (blank_summary JUndefined JUndefined (str ''BTC'')) \<and>
   formatTokenDetails ascii_upper (JObj [(''symbol'', str ''btc'')]) =
     Inr (blank_detail JUndefined JUndefined (str ''BTC'') (JNum 0) (JArr []))"
  by (simp add: formatAiAgentToken_def formatTokenDetails_def blank_summary_def
      blank_detail_def js_or_def opt_dot_def ascii_upper_btc)

text \<open>
  C4, amended. For every upstream record a normalizer accepts, the output has exactly
  the keys of its shape, and every field other than \<^verbatim>\<open>id\<close> and \<^verbatim>\<open>name\<close> is defined
  (in the detail view also the three image variants); \<^verbatim>\<open>id\<close> and \<^verbatim>\<open>name\<close> are the
  upstream values unchanged, undefined when the record has none.
\<close>

theorem C4_fields_defined_except_id_name:
  "(formatAiAgentToken to_upper token = Inr out \<longrightarrow>
      map fst out = summary_keys \<and>
      (k \<in> set summary_keys \<longrightarrow> k \<noteq> ''id'' \<longrightarrow> k \<noteq> ''name'' \<longrightarrow>
         get_member (JObj out) k \<noteq> JUndefined) \<and>
      get_member (JObj out) ''id'' = get_member token ''id'' \<and>
      get_member (JObj out) ''name'' = get_member token ''name'') \<and>
   (formatTokenDetails to_upper token' = Inr out' \<longrightarrow>
      map fst out' = detail_keys \<and>
      (k' \<in> set detail_keys \<longrightarrow> k' \<noteq> ''id'' \<longrightarrow> k' \<noteq> ''name'' \<longrightarrow>
         get_member (JObj out') k' \<noteq> JUndefined) \<and>
      (variant \<in> {''thumb'', ''small'', ''large''} \<longrightarrow>
         get_member (get_member (JObj out') ''image'') variant \<noteq> JUndefined) \<and>
      get_member (JObj out') ''id'' = get_member token' ''id'' \<and>
      get_member (JObj out') ''name'' = get_member token' ''name'')"
proof (intro conjI impI)
  assume ok: "formatAiAgentToken to_upper token = Inr out"
  show "map fst out = summary_keys"
    by (rule summary_keys_of [OF ok])
  show "get_member (JObj out) ''id'' = get_member token ''id''"
    and "get_member (JObj out) ''name'' = get_member token ''name''"
    by (rule summary_id_name [OF ok])+
  show "get_member (JObj out) k \<noteq> JUndefined"
    if "k \<in> set summary_keys" and "k \<noteq> ''id''" and "k \<noteq> ''name''"
    using that listed_defined [OF summary_values_defined [OF ok]]
    unfolding summary_keys_of [OF ok] by blast
next
  assume ok: "formatTokenDetails to_upper token' = Inr out'"
  show "map fst out' = detail_keys"
    by (rule detail_keys_of [OF ok])
  show "get_member (JObj out') ''id'' = get_member token' ''id''"
    and "get_member (JObj out') ''name'' = get_member token' ''name''"
    by (rule detail_id_name [OF ok])+
  show "get_member (get_member (JObj out') ''image'') variant \<noteq> JUndefined"
    if "variant \<in> {''thumb'', ''small'', ''large''}"
    using that unfolding detail_image [OF ok] by (auto simp: js_or_defined)
  show "get_member (JObj out') k' \<noteq> JUndefined"
    if "k' \<in> set detail_keys" and "k' \<noteq> ''id''" and "k' \<noteq> ''name''"
    using that listed_defined [OF detail_values_defined [OF ok]]
    unfolding detail_keys_of [OF ok] by blast
qed

theorem C4_witness:
  "formatAiAgentToken ascii_upper partial_listing =
     Inr (blank_summary (str ''bitcoin'') (str ''Bitcoin'') (str ''BTC'')) \<and>
   ''max_supply'' \<in> set summary_keys \<and>
   get_member (JObj (blank_summary (str ''bitcoin'') (str ''Bitcoin'') (str ''BTC'')))
     ''max_supply'' \<noteq> JUndefined \<and>
   get_member (JObj (blank_summary (str ''bitcoin'') (str ''Bitcoin'') (str ''BTC'')))
     ''id'' = get_member partial_listing ''id'' \<and>
   formatTokenDetails ascii_upper bitcoin_detail = Inr bitcoin_normalized \<and>
   ''ath_date'' \<in> set detail_keys \<and>
   get_member (JObj bitcoin_normalized) ''ath_date'' \<noteq> JUndefined \<and>
   get_member (get_member (JObj bitcoin_normalized) ''image'') ''small'' \<noteq> JUndefined \<and>
   get_member (JObj bitcoin_normalized) ''name'' = get_member bitcoin_detail ''name''"
proof -
  have keys: "''max_supply'' \<in> set summary_keys" "''ath_date'' \<in> set detail_keys"
    by (simp_all add: summary_keys_def detail_keys_def)
  have other: "''max_supply'' \<noteq> ''id''" "''max_supply'' \<noteq> ''name''"
    "''ath_date'' \<noteq> ''id''" "''ath_date'' \<noteq> ''name''"
    "''small'' \<in> {''thumb'', ''small'', ''large''}"
    by simp_all
  note C4 =
    C4_fields_defined_except_id_name
      [of ascii_upper partial_listing
        "blank_summary (str ''bitcoin'') (str ''Bitcoin'') (str ''BTC'')" "''max_supply''"
        bitcoin_detail bitcoin_normalized "''ath_date''" "''small''"]
  show ?thesis
    using C4 keys other format_partial_listing format_bitcoin_detail
    by (simp only: simp_thms)
qed

text \<open>
  C7, as stated, fails on an upstream symbol that is the empty string: its upper case is
  the empty string, and the normalized symbol is \<^verbatim>\<open>N/A\<close>.
\<close>

theorem C7_counterexample:
  "formatAiAgentToken ascii_upper
     (JObj [(''id'', str ''bitcoin''), (''name'', str ''Bitcoin''), (''symbol'', str '''')]) =
     Inr (blank_summary (str ''bitcoin'') (str ''Bitcoin'') (str ''N/A'')) \<and>
   ascii_upper (units '''') = units '''' \<and>
   str ''N/A'' \<noteq> JStr (ascii_upper (units ''''))"
  by (simp add: formatAiAgentToken_def blank_summary_def js_or_def ascii_upper_def units_def)

text \<open>
  C7, amended. Let \<open>to_upper\<close> be the runtime's \<^verbatim>\<open>toUpperCase\<close>, which returns the
  empty string on the empty string only. For every upstream record, the list normalizer,
  and the detail normalizer when the record's sparkline is one it can slice, return a
  record whose symbol is: \<^verbatim>\<open>symbol.toUpperCase()\<close> when the upstream symbol is a
  non-empty string; \<^verbatim>\<open>N/A\<close> when it is absent, null or the empty string.
\<close>

theorem C7_symbol_upper_case_or_default:
  assumes "\<forall>s. (to_upper s = []) = (s = [])"
  shows "(get_member token ''symbol'' = JStr s \<longrightarrow> s \<noteq> [] \<longrightarrow>
            field_of (formatAiAgentToken to_upper token) ''symbol'' = Inr (JStr (to_upper s)) \<and>
            (sliceable (sparkline token) \<longrightarrow>
               field_of (formatTokenDetails to_upper token) ''symbol'' =
                 Inr (JStr (to_upper s)))) \<and>
         (\<not> nullish token \<longrightarrow> get_member token ''symbol'' \<in> {JUndefined, JNull, JStr []} \<longrightarrow>
            field_of (formatAiAgentToken to_upper token) ''symbol'' = Inr (str ''N/A'') \<and>
            (sliceable (sparkline token) \<longrightarrow>
               field_of (formatTokenDetails to_upper token) ''symbol'' = Inr (str ''N/A'')))"
proof -
  have empty: "to_upper [] = []"
    using assms by simp
  have nonempty: "to_upper s \<noteq> []" if "s \<noteq> []" for s
    using assms that by simp
  have summary: "field_of (formatAiAgentToken to_upper token) ''symbol'' = Inr v"
    if well_typed: "\<not> nullish token" "upper_casable (get_member token ''symbol'')"
      and upper: "\<And>upper. opt_toUpperCase to_upper (get_member token ''symbol'') = Inr upper \<Longrightarrow>
             js_or upper (str ''N/A'') = v" for v
  proof -
    obtain out where out: "formatAiAgentToken to_upper token = Inr out"
      using summary_accepts [OF well_typed] by blast
    show ?thesis
      using summary_symbol [OF out] upper by (auto simp: field_of_Inr [OF out])
  qed
  have detail: "field_of (formatTokenDetails to_upper token) ''symbol'' = Inr v"
    if well_typed: "\<not> nullish token" "upper_casable (get_member token ''symbol'')"
        "sliceable (sparkline token)"
      and upper: "\<And>upper. opt_toUpperCase to_upper (get_member token ''symbol'') = Inr upper \<Longrightarrow>
             js_or upper (str ''N/A'') = v" for v
  proof -
    obtain out where out: "formatTokenDetails to_upper token = Inr out"
      using detail_accepts [OF well_typed] by blast
    show ?thesis
      using detail_symbol [OF out] upper by (auto simp: field_of_Inr [OF out])
  qed
  have string: "\<not> nullish token \<and> upper_casable (get_member token ''symbol'') \<and>
      (\<forall>upper. opt_toUpperCase to_upper (get_member token ''symbol'') = Inr upper \<longrightarrow>
         js_or upper (str ''N/A'') = JStr (to_upper s))"
    if "get_member token ''symbol'' = JStr s" and "s \<noteq> []"
    using that nonempty [OF that(2)] by (cases token) (auto simp: js_or_def)
  have missing: "upper_casable (get_member token ''symbol'') \<and>
      (\<forall>upper. opt_toUpperCase to_upper (get_member token ''symbol'') = Inr upper \<longrightarrow>
         js_or upper (str ''N/A'') = str ''N/A'')"
    if "get_member token ''symbol'' \<in> {JUndefined, JNull, JStr []}"
  proof -
    from that consider "get_member token ''symbol'' = JUndefined"
      | "get_member token ''symbol'' = JNull" | "get_member token ''symbol'' = JStr []"
      by auto
    then show ?thesis
      using empty by cases (simp_all add: js_or_def)
  qed
  show ?thesis
    using summary detail string missing by blast
qed

theorem C7_witness:
  "(\<forall>s. (ascii_upper s = []) = (s = [])) \<and>
   get_member partial_listing ''symbol'' = JStr (units ''btc'') \<and>
   units ''btc'' \<noteq> [] \<and>
   field_of (formatAiAgentToken ascii_upper partial_listing) ''symbol'' = Inr (str ''BTC'') \<and>
   get_member bitcoin_detail ''symbol'' = JStr (units ''btc'') \<and>
   sliceable (sparkline bitcoin_detail) \<and>
   field_of (formatTokenDetails ascii_upper bitcoin_detail) ''symbol'' = Inr (str ''BTC'') \<and>
   \<not> nullish (JObj [(''id'', str ''bitcoin'')]) \<and>
   get_member (JObj [(''id'', str ''bitcoin'')]) ''symbol'' = JUndefined \<and>
   field_of (formatAiAgentToken ascii_upper (JObj [(''id'', str ''bitcoin'')])) ''symbol'' =
     Inr (str ''N/A'')"
proof -
  have upper: "\<forall>s. (ascii_upper s = []) = (s = [])"
    by (simp add: ascii_upper_empty_iff)
  have listing: "get_member partial_listing ''symbol'' = JStr (units ''btc'')"
    and detail: "get_member bitcoin_detail ''symbol'' = JStr (units ''btc'')"
    and nonempty: "units ''btc'' \<noteq> []"
    by (simp_all add: partial_listing_def bitcoin_detail_def)
  have sparkline: "sliceable (sparkline bitcoin_detail)"
    by (simp add: sparkline_bitcoin_detail)
  have absent: "\<not> nullish (JObj [(''id'', str ''bitcoin'')])"
    "get_member (JObj [(''id'', str ''bitcoin'')]) ''symbol'' = JUndefined"
    by simp_all
  show ?thesis
    using C7_symbol_upper_case_or_default [OF upper, of partial_listing "units ''btc''"]
      C7_symbol_upper_case_or_default [OF upper, of bitcoin_detail "units ''btc''"]
      C7_symbol_upper_case_or_default [OF upper, of "JObj [(''id'', str ''bitcoin'')]"]
      upper listing detail nonempty sparkline absent
    by (simp add: ascii_upper_btc)
qed

text \<open>
  C8. For every upstream detail record (a record with a symbol the normalizer can
  upper-case): when the upstream 7-day sparkline is an array, the record is normalized
  and \<^verbatim>\<open>chart_data\<close> is its last 24 points, all of them when there are fewer; when the
  sparkline is absent, \<^verbatim>\<open>chart_data\<close> is the empty array; a sparkline that is a string
  is cut to its last 24 code units, and any other makes the normalizer throw. So the
  \<^verbatim>\<open>chart_data\<close> of every normalized record has at most 24 elements.
\<close>

theorem C8_chart_data_last_24_points:
  assumes "\<not> nullish token" and "upper_casable (get_member token ''symbol'')"
  shows "(sparkline token = JArr points \<longrightarrow>
            field_of (formatTokenDetails to_upper token) ''chart_data'' =
              Inr (JArr (drop (length points - 24) points)) \<and>
            length (drop (length points - 24) points) = min 24 (length points)) \<and>
         (nullish (sparkline token) \<longrightarrow>
            field_of (formatTokenDetails to_upper token) ''chart_data'' = Inr (JArr [])) \<and>
         (sparkline token = JStr cs \<longrightarrow>
            field_of (formatTokenDetails to_upper token) ''chart_data'' =
              Inr (if cs = [] then JArr [] else JStr (drop (length cs - 24) cs))) \<and>
         (\<not> sliceable (sparkline token) \<longrightarrow>
            formatTokenDetails to_upper token = Inl TypeError) \<and>
         (formatTokenDetails to_upper token = Inr out \<longrightarrow>
            (\<exists>xs. get_member (JObj out) ''chart_data'' = JArr xs \<and> length xs \<le> 24) \<or>
            (\<exists>us. get_member (JObj out) ''chart_data'' = JStr us \<and> length us \<le> 24))"
proof (intro conjI impI)
  have chart: "field_of (formatTokenDetails to_upper token) ''chart_data'' =
      Inr (js_or sliced (JArr []))"
    if sliced: "opt_slice24 (sparkline token) = Inr sliced" for sliced
  proof -
    have "sliceable (sparkline token)"
      using sliced by (cases "sparkline token") simp_all
    then obtain out' where out: "formatTokenDetails to_upper token = Inr out'"
      using detail_accepts [OF assms] by blast
    show ?thesis
      using detail_chart [OF out] sliced by (auto simp: field_of_Inr [OF out])
  qed
  show "field_of (formatTokenDetails to_upper token) ''chart_data'' =
      Inr (JArr (drop (length points - 24) points))"
    if "sparkline token = JArr points"
    using chart [of "JArr (slice (- 24) points)"] that by (simp add: js_or_def slice_last_24)
  show "length (drop (length points - 24) points) = min 24 (length points)"
    by auto
  show "field_of (formatTokenDetails to_upper token) ''chart_data'' = Inr (JArr [])"
    if "nullish (sparkline token)"
    using chart [of JUndefined] that by (cases "sparkline token") (simp_all add: js_or_def)
  show "field_of (formatTokenDetails to_upper token) ''chart_data'' =
      Inr (if cs = [] then JArr [] else JStr (drop (length cs - 24) cs))"
    if "sparkline token = JStr cs"
  proof (cases "cs = []")
    case True
    then show ?thesis
      using chart [of "JStr (slice (- 24) cs)"] that by (simp add: js_or_def slice_last_24)
  next
    case False
    then have "drop (length cs - 24) cs \<noteq> []"
      by (cases cs) auto
    with False show ?thesis
      using chart [of "JStr (slice (- 24) cs)"] that by (simp add: js_or_def slice_last_24)
  qed
  show "formatTokenDetails to_upper token = Inl TypeError" if "\<not> sliceable (sparkline token)"
    using that by (simp add: detail_rejects)
  show "(\<exists>xs. get_member (JObj out) ''chart_data'' = JArr xs \<and> length xs \<le> 24) \<or>
      (\<exists>us. get_member (JObj out) ''chart_data'' = JStr us \<and> length us \<le> 24)"
    if accepted: "formatTokenDetails to_upper token = Inr out"
  proof -
    obtain sliced where "opt_slice24 (sparkline token) = Inr sliced"
      and "get_member (JObj out) ''chart_data'' = js_or sliced (JArr [])"
      using detail_chart [OF accepted] by blast
    then show ?thesis
      by (cases "sparkline token") (auto simp: js_or_def length_slice)
  qed
qed

theorem C8_witness:
  "\<not> nullish bitcoin_detail \<and>
   upper_casable (get_member bitcoin_detail ''symbol'') \<and>
   sparkline bitcoin_detail = JArr (JNum 1 # JNum 2 # last_24_points) \<and>
   length (JNum 1 # JNum 2 # last_24_points) = 26 \<and>
   field_of (formatTokenDetails ascii_upper bitcoin_detail) ''chart_data'' =
     Inr (JArr last_24_points) \<and>
   length last_24_points = 24 \<and>
   \<not> nullish falsy_detail \<and>
   upper_casable (get_member falsy_detail ''symbol'') \<and>
   sparkline falsy_detail = JNull \<and>
   field_of (formatTokenDetails ascii_upper falsy_detail) ''chart_data'' = Inr (JArr []) \<and>
   \<not> nullish zero_sparkline \<and>
   upper_casable (get_member zero_sparkline ''symbol'') \<and>
   sparkline zero_sparkline = JNum 0 \<and>
   formatTokenDetails ascii_upper zero_sparkline = Inl TypeError"
proof -
  have accepted: "\<not> nullish bitcoin_detail" "upper_casable (get_member bitcoin_detail ''symbol'')"
    "\<not> nullish falsy_detail" "upper_casable (get_member falsy_detail ''symbol'')"
    "\<not> nullish zero_sparkline" "upper_casable (get_member zero_sparkline ''symbol'')"
    by (simp_all add: bitcoin_detail_def falsy_detail_def zero_sparkline_def)
  have sparklines: "sparkline falsy_detail = JNull" "sparkline zero_sparkline = JNum 0"
    by (simp_all add: sparkline_def read_path_def opt_dot_def falsy_detail_def
        zero_sparkline_def)
  have last: "drop (length (JNum 1 # JNum 2 # last_24_points) - 24)
      (JNum 1 # JNum 2 # last_24_points) = last_24_points"
    and len: "length last_24_points = 24"
    by (simp_all add: last_24_points_def)
  show ?thesis
    using C8_chart_data_last_24_points [OF accepted(1,2), of "JNum 1 # JNum 2 # last_24_points"
        ascii_upper]
      C8_chart_data_last_24_points [OF accepted(3,4), of _ ascii_upper]
      C8_chart_data_last_24_points [OF accepted(5,6), of _ ascii_upper]
      accepted sparklines sparkline_bitcoin_detail last len
    by simp
qed

text \<open>
  C10, as stated, fails for the two fields on which a method is called before the
  default is tested. A symbol of 0 is present and falsy, yet it is not replaced by
  \<^verbatim>\<open>N/A\<close> as a missing symbol is: \<^verbatim>\<open>?.toUpperCase()\<close> throws a TypeError. A sparkline
  of 0 likewise makes \<^verbatim>\<open>?.slice(-24)\<close> throw.
\<close>

theorem C10_counterexample:
  "get_member zero_symbol ''symbol'' = JNum 0 \<and>
   \<not> truthy (JNum 0) \<and>
   formatAiAgentToken ascii_upper zero_symbol = Inl TypeError \<and>
   formatAiAgentToken ascii_upper (JObj [(''id'', str ''bitcoin''), (''name'', str ''Bitcoin'')]) =
     Inr (blank_summary (str ''bitcoin'') (str ''Bitcoin'') (str ''N/A'')) \<and>
   sparkline zero_sparkline = JNum 0 \<and>
   formatTokenDetails ascii_upper zero_sparkline = Inl TypeError"
  by (simp add: zero_symbol_def zero_sparkline_def formatAiAgentToken_def
      formatTokenDetails_def sparkline_def read_path_def opt_dot_def blank_summary_def js_or_def)

text \<open>
  C10, amended. Every field written \<^verbatim>\<open>value || default\<close> tests truthiness, not
  absence: on every record a normalizer accepts, such a field is the upstream value when
  that is truthy and the default when it is falsy (undefined, null, 0, false or the empty
  string), so a rank of 0 becomes null, an empty timestamp \<^verbatim>\<open>N/A\<close> and a null price 0,
  exactly as if missing. The symbol and the sparkline have a method called on them first:
  a null or empty-string symbol becomes \<^verbatim>\<open>N/A\<close> and a null or empty-string sparkline
  the empty array, as missing ones do, but a symbol that is neither a string nor null
  or undefined (0 and false among them), or a sparkline that is none of these nor an
  array, makes the normalizer throw a TypeError. The list normalizer accepts every
  other record that is not itself null or undefined, and so does the detail normalizer.
\<close>

theorem C10_defaults_test_truthiness:
  "(\<not> nullish token \<longrightarrow> upper_casable (get_member token ''symbol'') \<longrightarrow>
      ((k, d) \<in> set summary_defaults \<longrightarrow>
         field_of (formatAiAgentToken to_upper token) k =
           Inr (if truthy (get_member token k) then get_member token k else d)) \<and>
      (to_upper [] = [] \<longrightarrow> \<not> truthy (get_member token ''symbol'') \<longrightarrow>
         field_of (formatAiAgentToken to_upper token) ''symbol'' = Inr (str ''N/A'')) \<and>
      (sliceable (sparkline token) \<longrightarrow>
         ((k', path, d') \<in> set detail_defaults \<longrightarrow>
            field_of (formatTokenDetails to_upper token) k' =
              Inr (if truthy (read_path token path) then read_path token path else d')) \<and>
         field_of (formatTokenDetails to_upper token) ''image'' =
           Inr (JObj
             [(''thumb'', if truthy (read_path token [''image'', ''thumb''])
                 then read_path token [''image'', ''thumb''] else str ''''),
              (''small'', if truthy (read_path token [''image'', ''small''])
                 then read_path token [''image'', ''small''] else str ''''),
              (''large'', if truthy (read_path token [''image'', ''large''])
                 then read_path token [''image'', ''large''] else str '''')]) \<and>
         (to_upper [] = [] \<longrightarrow> \<not> truthy (get_member token ''symbol'') \<longrightarrow>
            field_of (formatTokenDetails to_upper token) ''symbol'' = Inr (str ''N/A'')) \<and>
         (\<not> truthy (sparkline token) \<longrightarrow>
            field_of (formatTokenDetails to_upper token) ''chart_data'' = Inr (JArr [])))) \<and>
   (\<not> upper_casable (get_member token ''symbol'') \<longrightarrow>
      formatAiAgentToken to_upper token = Inl TypeError \<and>
      formatTokenDetails to_upper token = Inl TypeError) \<and>
   (\<not> sliceable (sparkline token) \<longrightarrow> formatTokenDetails to_upper token = Inl TypeError)"
proof (intro conjI impI)
  show "formatAiAgentToken to_upper token = Inl TypeError"
    if "\<not> upper_casable (get_member token ''symbol'')"
    using that by (rule summary_rejects)
  show "formatTokenDetails to_upper token = Inl TypeError"
    if "\<not> upper_casable (get_member token ''symbol'')"
    using that by (simp add: detail_rejects)
  show "formatTokenDetails to_upper token = Inl TypeError" if "\<not> sliceable (sparkline token)"
    using that by (simp add: detail_rejects)
next
  assume well_typed: "\<not> nullish token" "upper_casable (get_member token ''symbol'')"
  obtain out where out: "formatAiAgentToken to_upper token = Inr out"
    using summary_accepts [OF well_typed] by blast
  note field = field_of_Inr [OF out]
  show "field_of (formatAiAgentToken to_upper token) k =
      Inr (if truthy (get_member token k) then get_member token k else d)"
    if "(k, d) \<in> set summary_defaults"
    unfolding field summary_field [OF out that] by (simp add: js_or_def)
  show "field_of (formatAiAgentToken to_upper token) ''symbol'' = Inr (str ''N/A'')"
    if empty: "to_upper [] = []" and falsy: "\<not> truthy (get_member token ''symbol'')"
  proof -
    obtain upper where "opt_toUpperCase to_upper (get_member token ''symbol'') = Inr upper"
      and "get_member (JObj out) ''symbol'' = js_or upper (str ''N/A'')"
      using summary_symbol [OF out] by blast
    then show ?thesis
      unfolding field using empty falsy
      by (cases "get_member token ''symbol''") (auto simp: js_or_def)
  qed
next
  assume well_typed: "\<not> nullish token" "upper_casable (get_member token ''symbol'')"
    "sliceable (sparkline token)"
  obtain out where out: "formatTokenDetails to_upper token = Inr out"
    using detail_accepts [OF well_typed] by blast
  note field = field_of_Inr [OF out]
  show "field_of (formatTokenDetails to_upper token) k' =
      Inr (if truthy (read_path token path) then read_path token path else d')"
    if "(k', path, d') \<in> set detail_defaults"
    unfolding field detail_field [OF out that] by (simp add: js_or_def)
  show "field_of (formatTokenDetails to_upper token) ''image'' =
      Inr (JObj
        [(''thumb'', if truthy (read_path token [''image'', ''thumb''])
            then read_path token [''image'', ''thumb''] else str ''''),
         (''small'', if truthy (read_path token [''image'', ''small''])
            then read_path token [''image'', ''small''] else str ''''),
         (''large'', if truthy (read_path token [''image'', ''large''])
            then read_path token [''image'', ''large''] else str '''')])"
    unfolding field detail_image [OF out] by (simp add: js_or_def)
  show "field_of (formatTokenDetails to_upper token) ''symbol'' = Inr (str ''N/A'')"
    if empty: "to_upper [] = []" and falsy: "\<not> truthy (get_member token ''symbol'')"
  proof -
    obtain upper where "opt_toUpperCase to_upper (get_member token ''symbol'') = Inr upper"
      and "get_member (JObj out) ''symbol'' = js_or upper (str ''N/A'')"
      using detail_symbol [OF out] by blast
    then show ?thesis
      unfolding field using empty falsy
      by (cases "get_member token ''symbol''") (auto simp: js_or_def)
  qed
  show "field_of (formatTokenDetails to_upper token) ''chart_data'' = Inr (JArr [])"
    if falsy: "\<not> truthy (sparkline token)"
  proof -
    obtain sliced where "opt_slice24 (sparkline token) = Inr sliced"
      and "get_member (JObj out) ''chart_data'' = js_or sliced (JArr [])"
      using detail_chart [OF out] by blast
    then show ?thesis
      unfolding field using falsy
      by (cases "sparkline token") (auto simp: js_or_def slice_def)
  qed
qed

theorem C10_witness:
  "\<not> nullish falsy_listing \<and>
   upper_casable (get_member falsy_listing ''symbol'') \<and>
   (''market_cap_rank'', JNull) \<in> set summary_defaults \<and>
   get_member falsy_listing ''market_cap_rank'' = JNum 0 \<and>
   field_of (formatAiAgentToken ascii_upper falsy_listing) ''market_cap_rank'' = Inr JNull \<and>
   (''last_updated'', str ''N/A'') \<in> set summary_defaults \<and>
   get_member falsy_listing ''last_updated'' = str '''' \<and>
   field_of (formatAiAgentToken ascii_upper falsy_listing) ''last_updated'' = Inr (str ''N/A'') \<and>
   ascii_upper [] = [] \<and>
   get_member falsy_listing ''symbol'' = str '''' \<and>
   field_of (formatAiAgentToken ascii_upper falsy_listing) ''symbol'' = Inr (str ''N/A'') \<and>
   \<not> nullish bitcoin_detail \<and>
   upper_casable (get_member bitcoin_detail ''symbol'') \<and>
   sliceable (sparkline bitcoin_detail) \<and>
   (''current_price'', [''market_data'', ''current_price'', ''usd''], JNum 0)
     \<in> set detail_defaults \<and>
   read_path bitcoin_detail [''market_data'', ''current_price'', ''usd''] = JNum 42000 \<and>
   field_of (formatTokenDetails ascii_upper bitcoin_detail) ''current_price'' =
     Inr (JNum 42000) \<and>
   \<not> nullish falsy_detail \<and>
   upper_casable (get_member falsy_detail ''symbol'') \<and>
   sliceable (sparkline falsy_detail) \<and>
   read_path falsy_detail [''market_data'', ''current_price'', ''usd''] = JNull \<and>
   field_of (formatTokenDetails ascii_upper falsy_detail) ''current_price'' = Inr (JNum 0) \<and>
   sparkline falsy_detail = JNull \<and>
   field_of (formatTokenDetails ascii_upper falsy_detail) ''chart_data'' = Inr (JArr []) \<and>
   \<not> upper_casable (get_member zero_symbol ''symbol'') \<and>
   formatAiAgentToken ascii_upper zero_symbol = Inl TypeError \<and>
   \<not> sliceable (sparkline zero_sparkline) \<and>
   formatTokenDetails ascii_upper zero_sparkline = Inl TypeError"
proof -
  have tables: "(''market_cap_rank'', JNull) \<in> set summary_defaults"
    "(''last_updated'', str ''N/A'') \<in> set summary_defaults"
    "(''current_price'', [''market_data'', ''current_price'', ''usd''], JNum 0)
       \<in> set detail_defaults"
    by (simp_all add: summary_defaults_def detail_defaults_def)
  have listing: "\<not> nullish falsy_listing"
    "upper_casable (get_member falsy_listing ''symbol'')"
    "get_member falsy_listing ''market_cap_rank'' = JNum 0"
    "get_member falsy_listing ''last_updated'' = str ''''"
    "get_member falsy_listing ''symbol'' = str ''''"
    by (simp_all add: falsy_listing_def)
  have bitcoin: "\<not> nullish bitcoin_detail"
    "upper_casable (get_member bitcoin_detail ''symbol'')"
    "read_path bitcoin_detail [''market_data'', ''current_price'', ''usd''] = JNum 42000"
    by (simp_all add: read_path_def opt_dot_def bitcoin_detail_def)
  have sliced: "sliceable (sparkline bitcoin_detail)"
    by (simp add: sparkline_bitcoin_detail)
  have sparklines: "sparkline falsy_detail = JNull" "sparkline zero_sparkline = JNum 0"
    by (simp_all add: sparkline_def read_path_def opt_dot_def falsy_detail_def
        zero_sparkline_def)
  have detail: "\<not> nullish falsy_detail"
    "upper_casable (get_member falsy_detail ''symbol'')"
    "read_path falsy_detail [''market_data'', ''current_price'', ''usd''] = JNull"
    by (simp_all add: read_path_def opt_dot_def falsy_detail_def)
  have zero: "\<not> upper_casable (get_member zero_symbol ''symbol'')"
    by (simp add: zero_symbol_def)
  have empty: "ascii_upper [] = []"
    by (simp add: ascii_upper_def)
  show ?thesis
    using C10_defaults_test_truthiness
        [of falsy_listing "''market_cap_rank''" JNull ascii_upper]
      C10_defaults_test_truthiness
        [of falsy_listing "''last_updated''" "str ''N/A''" ascii_upper]
      C10_defaults_test_truthiness
        [of bitcoin_detail _ _ ascii_upper "''current_price''"
          "[''market_data'', ''current_price'', ''usd'']" "JNum 0"]
      C10_defaults_test_truthiness
        [of falsy_detail _ _ ascii_upper "''current_price''"
          "[''market_data'', ''current_price'', ''usd'']" "JNum 0"]
      C10_defaults_test_truthiness [of zero_symbol _ _ ascii_upper]
      C10_defaults_test_truthiness [of zero_sparkline _ _ ascii_upper]
      tables listing bitcoin sliced sparklines detail zero empty
    by simp
qed

section \<open>Claims about the operations\<close>

text \<open>
  C1. For every token identifier, when the market-data request of the detail operation
  throws, \<^verbatim>\<open>getTokenDetails\<close> resolves to null, and the run consists of the request
  and one line on the error stream: \<^verbatim>\<open>getAiAnalysis\<close> is not invoked and no
  completion is asked for.
\<close>

theorem C1_failed_fetch_returns_null_without_commentary:
  assumes "axios_get env (details_url env tokenId) details_params = Inl e"
  shows "getTokenDetails env tokenId =
           (Inr None,
            [HttpGet (details_url env tokenId) details_params,
             ConsoleError [Lit (''Error fetching details for '' @ tokenId @ '':'')] e]) \<and>
         chat_calls (snd (getTokenDetails env tokenId)) = []"
  by (simp add: getTokenDetails_def fetchTokenDetails_cases assms bind_io_def pure_io_def)

theorem C1_witness:
  "axios_get (stub_service network_down (answers (str ''Buy'')))
     (details_url (stub_service network_down (answers (str ''Buy''))) ''bitcoin'')
     details_params = Inl (Rejected ''Network Error'') \<and>
   fst (getTokenDetails (stub_service network_down (answers (str ''Buy''))) ''bitcoin'') =
     Inr None \<and>
   chat_calls (snd (getTokenDetails (stub_service network_down (answers (str ''Buy'')))
     ''bitcoin'')) = []"
proof -
  have down:
    "axios_get (stub_service network_down (answers (str ''Buy'')))
       (details_url (stub_service network_down (answers (str ''Buy''))) ''bitcoin'')
       details_params = Inl (Rejected ''Network Error'')"
    by (simp add: stub_service_simps network_down_def)
  show ?thesis
    using C1_failed_fetch_returns_null_without_commentary [OF down] down by simp
qed

text \<open>
  C3. For every outcome of the upstream listing call, the token-list operation resolves
  and never rejects: when the request throws, when the response has no readable
  \<^verbatim>\<open>data\<close>, and when mapping \<^verbatim>\<open>data\<close> throws, it resolves to the empty sequence;
  otherwise to the mapped records.
\<close>

theorem C3_list_operation_never_throws:
  "(\<exists>tokens. fst (getAiAgentTokens env) = Inr tokens) \<and>
   (axios_get env (markets_url env) markets_params = Inl e \<longrightarrow>
      fst (getAiAgentTokens env) = Inr []) \<and>
   (axios_get env (markets_url env) markets_params = Inr response \<longrightarrow>
      (dot response ''data'' = Inl e \<longrightarrow> fst (getAiAgentTokens env) = Inr []) \<and>
      (dot response ''data'' = Inr data \<longrightarrow>
         (call_map (formatAiAgentToken (toUpperCase env)) data = Inl e \<longrightarrow> fst (getAiAgentTokens env) = Inr []) \<and>
         (call_map (formatAiAgentToken (toUpperCase env)) data = Inr tokens \<longrightarrow>
            fst (getAiAgentTokens env) = Inr tokens)))"
  by (simp add: getAiAgentTokens_fetch fetchAiAgentTokens_cases Let_def split: sum.splits)

theorem C3_witness:
  "axios_get (stub_service network_down generation_down)
     (markets_url (stub_service network_down generation_down))
     markets_params = Inl (Rejected ''Network Error'') \<and>
   fst (getAiAgentTokens (stub_service network_down generation_down)) = Inr [] \<and>
   axios_get (stub_service (serves (str ''<html>'')) generation_down)
     (markets_url (stub_service (serves (str ''<html>'')) generation_down))
     markets_params = Inr (JObj [(''data'', str ''<html>'')]) \<and>
   dot (JObj [(''data'', str ''<html>'')]) ''data'' = Inr (str ''<html>'') \<and>
   call_map (formatAiAgentToken ascii_upper) (str ''<html>'') = Inl TypeError \<and>
   fst (getAiAgentTokens (stub_service (serves (str ''<html>'')) generation_down)) = Inr []"
proof -
  have down:
    "axios_get (stub_service network_down generation_down)
       (markets_url (stub_service network_down generation_down))
       markets_params = Inl (Rejected ''Network Error'')"
    by (simp add: stub_service_simps network_down_def)
  have page:
    "axios_get (stub_service (serves (str ''<html>'')) generation_down)
       (markets_url (stub_service (serves (str ''<html>'')) generation_down))
       markets_params = Inr (JObj [(''data'', str ''<html>'')])"
    by (simp add: stub_service_simps serves_def)
  have not_array: "call_map (formatAiAgentToken ascii_upper) (str ''<html>'') = Inl TypeError"
    by simp
  show ?thesis
    using C3_list_operation_never_throws
        [of "stub_service network_down generation_down" "Rejected ''Network Error''"]
      C3_list_operation_never_throws
        [of "stub_service (serves (str ''<html>'')) generation_down" TypeError
          "JObj [(''data'', str ''<html>'')]" "str ''<html>''"]
      down page not_array serves_data [of "str ''<html>''"]
    by (simp only: simp_thms stub_service_simps(4))
qed

text \<open>
  C9. For every token whose detail fetch succeeds, with \<open>t\<close> the normalized record:
  whatever record the detail operation returns is \<open>t\<close> followed by the one field
  \<^verbatim>\<open>ai_insight\<close>, so it has the keys of \<open>t\<close> and then \<^verbatim>\<open>ai_insight\<close>, and reads as
  \<open>t\<close> does at every other key; and the operation does return such a record whenever
  the upstream name converts to a string.
\<close>

theorem C9_detail_record_plus_ai_insight:
  assumes "axios_get env (details_url env tokenId) details_params = Inr response"
    and "dot response ''data'' = Inr data"
    and "formatTokenDetails (toUpperCase env) data = Inr t"
  shows "(fst (getTokenDetails env tokenId) = Inr result \<longrightarrow>
            (\<exists>insight. result = Some (t @ [(''ai_insight'', insight)]))) \<and>
         map fst (t @ [(''ai_insight'', insight)]) = detail_keys @ [''ai_insight''] \<and>
         (k \<noteq> ''ai_insight'' \<longrightarrow>
            get_member (JObj (t @ [(''ai_insight'', insight)])) k = get_member (JObj t) k) \<and>
         (\<not> toString_throws (get_member data ''name'') \<longrightarrow>
            (\<exists>insight. fst (getTokenDetails env tokenId) =
               Inr (Some (t @ [(''ai_insight'', insight)]))))"
proof (intro conjI impI)
  note result = getTokenDetails_fetched [OF assms]
  show "\<exists>insight. result = Some (t @ [(''ai_insight'', insight)])"
    if "fst (getTokenDetails env tokenId) = Inr result"
    using that unfolding result by (auto split: sum.splits)
  show "map fst (t @ [(''ai_insight'', insight)]) = detail_keys @ [''ai_insight'']"
    by (simp add: detail_keys_of [OF assms(3)])
  show "get_member (JObj (t @ [(''ai_insight'', insight)])) k = get_member (JObj t) k"
    if "k \<noteq> ''ai_insight''"
    using that by (simp add: map_add_def split: option.splits)
  show "\<exists>insight. fst (getTokenDetails env tokenId) =
      Inr (Some (t @ [(''ai_insight'', insight)]))"
    if "\<not> toString_throws (get_member data ''name'')"
  proof -
    have "\<not> toString_throws (get_member (JObj t) ''name'')"
      using that by (simp only: detail_id_name(2) [OF assms(3)] not_False_eq_True)
    then show ?thesis
      unfolding result getAiAnalysis_result by (auto split: sum.splits)
  qed
qed

theorem C9_witness:
  "axios_get (stub_service (serves bitcoin_detail) (answers (str ''Buy'')))
     (details_url (stub_service (serves bitcoin_detail) (answers (str ''Buy''))) ''bitcoin'')
     details_params = Inr (JObj [(''data'', bitcoin_detail)]) \<and>
   dot (JObj [(''data'', bitcoin_detail)]) ''data'' = Inr bitcoin_detail \<and>
   formatTokenDetails ascii_upper bitcoin_detail = Inr bitcoin_normalized \<and>
   get_member bitcoin_detail ''name'' = str ''Bitcoin'' \<and>
   fst (getTokenDetails (stub_service (serves bitcoin_detail) (answers (str ''Buy'')))
     ''bitcoin'') = Inr (Some (bitcoin_normalized @ [(''ai_insight'', str ''Buy'')])) \<and>
   get_member (JObj (bitcoin_normalized @ [(''ai_insight'', str ''Buy'')])) ''current_price'' =
     get_member (JObj bitcoin_normalized) ''current_price''"
proof -
  note C9 =
    C9_detail_record_plus_ai_insight
      [OF serves_bitcoin serves_data format_bitcoin_served,
        of "answers (str ''Buy'')" _ "str ''Buy''" "''current_price''"]
  have name: "get_member bitcoin_detail ''name'' = str ''Bitcoin''"
    by (simp add: bitcoin_detail_def)
  have returned:
    "fst (getTokenDetails (stub_service (serves bitcoin_detail) (answers (str ''Buy'')))
       ''bitcoin'') = Inr (Some (bitcoin_normalized @ [(''ai_insight'', str ''Buy'')]))"
    by (simp add: getTokenDetails_fetched [OF serves_bitcoin serves_data format_bitcoin_served]
        getAiAnalysis_result generation_def user_content_bitcoin stub_service_simps answers_def
        first_choice_content_completion js_or_def)
  have other: "''current_price'' \<noteq> ''ai_insight''"
    by simp
  show ?thesis
    using C9 name returned other serves_bitcoin serves_data format_bitcoin_detail
    by blast
qed

text \<open>
  C2, as stated, fails in its "exactly when": here the generation call does not throw,
  it answers the text \<^verbatim>\<open>AI analysis unavailable.\<close>; the catch block does not run
  (the error stream stays empty), and the record's \<^verbatim>\<open>ai_insight\<close> is that text.
\<close>

theorem C2_counterexample:
  "openai_create (stub_service (serves bitcoin_detail) (answers (str ''AI analysis unavailable.'')))
     (completion_request bitcoin_prompt) = Inr (completion (str ''AI analysis unavailable.'')) \<and>
   first_choice_content (completion (str ''AI analysis unavailable.'')) =
     Inr (str ''AI analysis unavailable.'') \<and>
   getTokenDetails (stub_service (serves bitcoin_detail) (answers (str ''AI analysis unavailable.'')))
     ''bitcoin'' =
     (Inr (Some (bitcoin_normalized @ [(''ai_insight'', str ''AI analysis unavailable.'')])),
      [HttpGet ''https://api.coingecko.com/api/v3/coins/bitcoin'' details_params,
       ChatCreate (completion_request bitcoin_prompt)])"
proof -
  have "AList.update ''ai_insight'' v bitcoin_normalized = bitcoin_normalized @ [(''ai_insight'', v)]"
    for v
    by (rule update_fresh [OF detail_no_ai_insight [OF format_bitcoin_detail]])
  then show ?thesis
    by (simp add: getTokenDetails_def getAiAnalysis_def
        fetchTokenDetails_fetched [OF serves_bitcoin serves_data format_bitcoin_served]
        user_content_bitcoin first_choice_content_completion stub_service_simps answers_def
        details_url_def chat_create_def try_catch_def bind_io_def lift_io_def pure_io_def
        js_or_def)
qed

text \<open>
  C2, amended. For every successfully fetched token, with \<open>t\<close> the normalized record
  and \<open>content\<close> the prompt written for it: when the generation call throws, or its
  response has no \<^verbatim>\<open>choices[0].message\<close> to read, \<^verbatim>\<open>ai_insight\<close> is
  \<^verbatim>\<open>AI analysis unavailable.\<close> (the generator's catch); when the generator returns a
  falsy content, it is \<^verbatim>\<open>No AI insight available.\<close> (the caller's default); otherwise
  it is the generated content itself, whatever that text is.
\<close>

theorem C2_ai_insight_fallbacks:
  assumes "axios_get env (details_url env tokenId) details_params = Inr response"
    and "dot response ''data'' = Inr data"
    and "formatTokenDetails (toUpperCase env) data = Inr t"
    and "user_content (JObj t) = Inr content"
  shows "(openai_create env (completion_request content) = Inl e \<longrightarrow>
            fst (getTokenDetails env tokenId) =
              Inr (Some (t @ [(''ai_insight'', str ''AI analysis unavailable.'')]))) \<and>
         (openai_create env (completion_request content) = Inr completed \<longrightarrow>
            (first_choice_content completed = Inl e \<longrightarrow>
               fst (getTokenDetails env tokenId) =
                 Inr (Some (t @ [(''ai_insight'', str ''AI analysis unavailable.'')]))) \<and>
            (first_choice_content completed = Inr generated \<longrightarrow>
               (\<not> truthy generated \<longrightarrow>
                  fst (getTokenDetails env tokenId) =
                    Inr (Some (t @ [(''ai_insight'', str ''No AI insight available.'')]))) \<and>
               (truthy generated \<longrightarrow>
                  fst (getTokenDetails env tokenId) =
                    Inr (Some (t @ [(''ai_insight'', generated)])))))"
proof -
  note result = getTokenDetails_fetched [OF assms(1-3)]
  note name = user_content_name [OF assms(4)]
  show ?thesis
    using name unfolding result getAiAnalysis_result
    by (simp add: generation_def assms(4) js_or_def)
qed

theorem C2_witness:
  "axios_get (stub_service (serves bitcoin_detail) generation_down)
     (details_url (stub_service (serves bitcoin_detail) generation_down) ''bitcoin'')
     details_params = Inr (JObj [(''data'', bitcoin_detail)]) \<and>
   dot (JObj [(''data'', bitcoin_detail)]) ''data'' = Inr bitcoin_detail \<and>
   formatTokenDetails ascii_upper bitcoin_detail = Inr bitcoin_normalized \<and>
   user_content (JObj bitcoin_normalized) = Inr bitcoin_prompt \<and>
   openai_create (stub_service (serves bitcoin_detail) generation_down)
     (completion_request bitcoin_prompt) = Inl (Rejected ''Connection error.'') \<and>
   fst (getTokenDetails (stub_service (serves bitcoin_detail) generation_down) ''bitcoin'') =
     Inr (Some (bitcoin_normalized @ [(''ai_insight'', str ''AI analysis unavailable.'')])) \<and>
   openai_create (stub_service (serves bitcoin_detail) (answers JNull))
     (completion_request bitcoin_prompt) = Inr (completion JNull) \<and>
   first_choice_content (completion JNull) = Inr JNull \<and>
   fst (getTokenDetails (stub_service (serves bitcoin_detail) (answers JNull)) ''bitcoin'') =
     Inr (Some (bitcoin_normalized @ [(''ai_insight'', str ''No AI insight available.'')]))"
proof -
  have down:
    "openai_create (stub_service (serves bitcoin_detail) generation_down)
       (completion_request bitcoin_prompt) = Inl (Rejected ''Connection error.'')"
    by (simp add: stub_service_simps generation_down_def)
  have null:
    "openai_create (stub_service (serves bitcoin_detail) (answers JNull))
       (completion_request bitcoin_prompt) = Inr (completion JNull)"
    by (simp add: stub_service_simps answers_def)
  have falsy: "\<not> truthy JNull"
    by simp
  note fetched = serves_bitcoin serves_data format_bitcoin_served user_content_bitcoin
  show ?thesis
    using C2_ai_insight_fallbacks [OF fetched, of generation_down "Rejected ''Connection error.''"]
      C2_ai_insight_fallbacks [OF fetched, of "answers JNull" _ "completion JNull" JNull]
      down null falsy fetched format_bitcoin_detail first_choice_content_completion [of JNull]
    by blast
qed

text \<open>
  C5. The prompt interpolates \<^verbatim>\<open>token.high_24h\<close> and \<^verbatim>\<open>token.low_24h\<close>, and the
  detail normalizer writes neither field. On the example record, which carries a 24h
  high and low upstream, the normalized record has neither key, and the seventh and
  eighth values interpolated into the prompt are undefined.
\<close>

theorem C5_prompt_reads_undefined_high_and_low:
  "formatTokenDetails ascii_upper bitcoin_detail = Inr bitcoin_normalized \<and>
   read_path bitcoin_detail [''market_data'', ''high_24h'', ''usd''] = JNum 43000 \<and>
   read_path bitcoin_detail [''market_data'', ''low_24h'', ''usd''] = JNum 41000 \<and>
   ''high_24h'' \<notin> set (map fst bitcoin_normalized) \<and>
   ''low_24h'' \<notin> set (map fst bitcoin_normalized) \<and>
   prompt_holes (JObj bitcoin_normalized) =
     Inr [str ''Bitcoin'', str ''BTC'', JNum 42000, JNum 0, JNull, JNum 0,
          JUndefined, JUndefined,
          JNum 0, JNum 0, JNum 0, JNum 0, JNum 0, JNum 0, JNum 0, JNum 0,
          JArr last_24_points]"
proof -
  have upstream:
    "read_path bitcoin_detail [''market_data'', ''high_24h'', ''usd''] = JNum 43000"
    "read_path bitcoin_detail [''market_data'', ''low_24h'', ''usd''] = JNum 41000"
    by (simp_all add: read_path_def bitcoin_detail_def opt_dot_def)
  have keys: "''high_24h'' \<notin> set (map fst bitcoin_normalized)"
    "''low_24h'' \<notin> set (map fst bitcoin_normalized)"
    by (simp_all add: detail_keys_of [OF format_bitcoin_detail] detail_keys_def)
  have "prompt_holes (JObj bitcoin_normalized) =
     Inr [str ''Bitcoin'', str ''BTC'', JNum 42000, JNum 0, JNull, JNum 0,
          JUndefined, JUndefined,
          JNum 0, JNum 0, JNum 0, JNum 0, JNum 0, JNum 0, JNum 0, JNum 0,
          JArr last_24_points]"
    by (simp add: prompt_holes_def user_content_def template_literal_def bitcoin_normalized_def
        blank_detail_def)
  then show ?thesis
    using upstream keys format_bitcoin_detail by blast
qed

end
